theory Spec2Isabelle
  imports Complex_Main "HOL-Library.Log_Nat"
begin

section \<open>Python values shared by the tracker and the orchestrator\<close>

text \<open>
  Strings are lists of code points below 256. A raised exception is a value: \<open>Exception msg\<close>
  stands for an instance of \<^verbatim>\<open>Exception\<close> (or of a subclass of it) whose \<^verbatim>\<open>str(e)\<close> is
  \<open>msg\<close>; \<open>BaseException msg\<close> for one that derives from \<^verbatim>\<open>BaseException\<close> only
  (\<^verbatim>\<open>KeyboardInterrupt\<close>, \<^verbatim>\<open>SystemExit\<close>), which \<^verbatim>\<open>except Exception\<close> does not catch.
\<close>

datatype py_exn = Exception string | BaseException string

fun is_Exception :: "py_exn \<Rightarrow> bool" where
  "is_Exception (Exception msg) = True"
| "is_Exception (BaseException msg) = False"

fun str_exn :: "py_exn \<Rightarrow> string" where
  "str_exn (Exception msg) = msg"
| "str_exn (BaseException msg) = msg"

text \<open>Truthiness of an \<^verbatim>\<open>Optional[str]\<close>: \<^verbatim>\<open>None\<close> and the empty string are false.\<close>

fun truthy :: "string option \<Rightarrow> bool" where
  "truthy None = False"
| "truthy (Some s) = (s \<noteq> [])"

subsection \<open>Floats\<close>

text \<open>
  A Python \<^verbatim>\<open>float\<close> is an IEEE 754 binary64 number, modelled by the rational it denotes.
  Every arithmetic operation returns the exact result rounded to the nearest number with a
  53-bit significand, ties to even. Infinities, NaN and subnormal numbers are left out: the
  magnitudes in this program (percentages, seconds since the epoch, milliseconds) are far
  inside the normal range.
\<close>

type_synonym py_float = rat

definition pow2 :: "int \<Rightarrow> rat" where
  "pow2 e = (if 0 \<le> e then 2 ^ nat e else 1 / 2 ^ nat (- e))"

definition round_half_even :: "rat \<Rightarrow> int" where
  "round_half_even x =
     (let f = \<lfloor>x\<rfloor>; d = x - of_int f
      in if d < 1 / 2 then f
         else if 1 / 2 < d then f + 1
         else if even f then f else f + 1)"

text \<open>The exponent \<open>e\<close> with \<open>2 ^ e \<le> x < 2 ^ (e + 1)\<close>, for positive \<open>x\<close>.\<close>

definition binary_exponent :: "rat \<Rightarrow> int" where
  "binary_exponent x =
     (let (a, b) = quotient_of x;
          k = bitlen a - bitlen b
      in if pow2 k \<le> x then k else k - 1)"

definition round_double :: "rat \<Rightarrow> py_float" where
  "round_double x =
     (if x = 0 then 0
      else let e = binary_exponent \<bar>x\<bar> - 52;
               m = round_half_even (\<bar>x\<bar> / pow2 e)
           in sgn x * of_int m * pow2 e)"

text \<open>\<^verbatim>\<open>a / b\<close> on two ints (true division, correctly rounded), for \<open>b \<noteq> 0\<close>.\<close>

definition int_truediv :: "int \<Rightarrow> int \<Rightarrow> py_float" where
  "int_truediv a b = round_double (of_int a / of_int b)"

text \<open>\<^verbatim>\<open>float(i)\<close>, the conversion Python applies to an int operand of a float operation.\<close>

definition float_of_int :: "int \<Rightarrow> py_float" where
  "float_of_int i = round_double (of_int i)"

definition float_add :: "py_float \<Rightarrow> py_float \<Rightarrow> py_float" where
  "float_add x y = round_double (x + y)"

definition float_sub :: "py_float \<Rightarrow> py_float \<Rightarrow> py_float" where
  "float_sub x y = round_double (x - y)"

definition float_mul :: "py_float \<Rightarrow> py_float \<Rightarrow> py_float" where
  "float_mul x y = round_double (x * y)"

definition float_div :: "py_float \<Rightarrow> py_float \<Rightarrow> py_float" where
  "float_div x y = round_double (x / y)"

text \<open>\<^verbatim>\<open>int(x)\<close> on a float truncates towards zero.\<close>

definition py_int :: "py_float \<Rightarrow> int" where
  "py_int x = (if 0 \<le> x then \<lfloor>x\<rfloor> else \<lceil>x\<rceil>)"

section \<open>Progress state (hierarchical\_progress.py)\<close>

datatype StepStatus = PENDING | IN_PROGRESS | COMPLETED | FAILED | SKIPPED

datatype AgentState = IDLE | PLANNING | RUNNING | WAITING | COMPLETED | FAILED

fun StepStatus_value :: "StepStatus \<Rightarrow> string" where
  "StepStatus_value StepStatus.PENDING = ''pending''"
| "StepStatus_value StepStatus.IN_PROGRESS = ''in_progress''"
| "StepStatus_value StepStatus.COMPLETED = ''completed''"
| "StepStatus_value StepStatus.FAILED = ''failed''"
| "StepStatus_value StepStatus.SKIPPED = ''skipped''"

fun AgentState_value :: "AgentState \<Rightarrow> string" where
  "AgentState_value AgentState.IDLE = ''idle''"
| "AgentState_value AgentState.PLANNING = ''planning''"
| "AgentState_value AgentState.RUNNING = ''running''"
| "AgentState_value AgentState.WAITING = ''waiting''"
| "AgentState_value AgentState.COMPLETED = ''completed''"
| "AgentState_value AgentState.FAILED = ''failed''"

text \<open>
  The constructor calls \<^verbatim>\<open>StepStatus(status)\<close> and \<^verbatim>\<open>AgentState(status)\<close>: the member with
  that value, \<open>None\<close> where Python raises \<^verbatim>\<open>ValueError\<close>.
\<close>

definition StepStatus_of :: "string \<Rightarrow> StepStatus option" where
  "StepStatus_of s =
     (if s = ''pending'' then Some StepStatus.PENDING
      else if s = ''in_progress'' then Some StepStatus.IN_PROGRESS
      else if s = ''completed'' then Some StepStatus.COMPLETED
      else if s = ''failed'' then Some StepStatus.FAILED
      else if s = ''skipped'' then Some StepStatus.SKIPPED
      else None)"

definition AgentState_of :: "string \<Rightarrow> AgentState option" where
  "AgentState_of s =
     (if s = ''idle'' then Some AgentState.IDLE
      else if s = ''planning'' then Some AgentState.PLANNING
      else if s = ''running'' then Some AgentState.RUNNING
      else if s = ''waiting'' then Some AgentState.WAITING
      else if s = ''completed'' then Some AgentState.COMPLETED
      else if s = ''failed'' then Some AgentState.FAILED
      else None)"

text \<open>
  A status field holds an enum member or, when the conversion failed, the raw string. Both
  enums derive from \<^verbatim>\<open>str\<close>, so \<^verbatim>\<open>==\<close> on a status field compares the string values.
\<close>

datatype 'e status_field = Member 'e | Raw string

fun step_status_str :: "StepStatus status_field \<Rightarrow> string" where
  "step_status_str (Member e) = StepStatus_value e"
| "step_status_str (Raw s) = s"

fun agent_status_str :: "AgentState status_field \<Rightarrow> string" where
  "agent_status_str (Member e) = AgentState_value e"
| "agent_status_str (Raw s) = s"

type_synonym datetime = int

record PlanningStep =
  step_id :: string
  step_name :: string
  step_action :: string
  step_status :: "StepStatus status_field"
  step_started_at :: "datetime option"
  step_completed_at :: "datetime option"
  step_duration_ms :: "int option"
  step_details :: "string option"
  step_error :: "string option"

record AgentStatus =
  agent_name :: string
  agent_status :: "AgentState status_field"
  agent_current_tool :: "string option"
  agent_current_step :: "string option"
  agent_parent_agent :: "string option"
  agent_started_at :: "datetime option"
  agent_message :: "string option"

record ToolExecution =
  tool :: string
  tool_status :: string
  tool_query :: "string option"
  tool_started_at :: datetime
  tool_completed_at :: "datetime option"
  tool_duration_ms :: "int option"
  tool_result_preview :: "string option"
  tool_error :: "string option"

record ProgressState =
  research_id :: string
  phase :: string
  message :: string
  overall_progress :: int
  planning_steps :: "PlanningStep list"
  active_agents :: "AgentStatus list"
  tool_executions :: "ToolExecution list"
  started_at :: datetime
  updated_at :: datetime

text \<open>
  The dataclass defaults: \<^verbatim>\<open>PlanningStep(id, name, action)\<close> and
  \<^verbatim>\<open>AgentStatus(name, status, parent_agent, started_at)\<close>.
\<close>

definition new_PlanningStep :: "string \<Rightarrow> string \<Rightarrow> string \<Rightarrow> PlanningStep" where
  "new_PlanningStep i n a =
     \<lparr>step_id = i, step_name = n, step_action = a, step_status = Member StepStatus.PENDING,
      step_started_at = None, step_completed_at = None, step_duration_ms = None,
      step_details = None, step_error = None\<rparr>"

definition new_AgentStatus :: "string \<Rightarrow> string option \<Rightarrow> datetime \<Rightarrow> AgentStatus" where
  "new_AgentStatus n parent now =
     \<lparr>agent_name = n, agent_status = Member AgentState.IDLE, agent_current_tool = None,
      agent_current_step = None, agent_parent_agent = parent, agent_started_at = Some now,
      agent_message = None\<rparr>"

section \<open>The progress manager\<close>

text \<open>
  The two clocks are oracles: \<open>datetime_now clk n\<close> is what the \<open>n\<close>-th call of
  \<^verbatim>\<open>datetime.now(UTC)\<close> returns and \<open>time_time clk n\<close> what the \<open>n\<close>-th call of
  \<^verbatim>\<open>time.time()\<close> returns; the manager counts the calls made so far.

  The callback is a function of the state it is shown (the Python callback receives
  \<^verbatim>\<open>state.to_dict()\<close>, a function of that state): \<open>None\<close> when it returns, \<open>Some e\<close> when it
  raises \<open>e\<close>. \<open>callback_calls\<close> records the states the callback was called with, oldest first.
\<close>

record clock =
  datetime_now :: "nat \<Rightarrow> datetime"
  time_time :: "nat \<Rightarrow> py_float"

record manager =
  state :: ProgressState
  callback :: "(ProgressState \<Rightarrow> py_exn option) option"
  step_start_times :: "string \<rightharpoonup> py_float"
  tool_start_times :: "string \<rightharpoonup> py_float"
  callback_calls :: "ProgressState list"
  now_calls :: nat
  time_calls :: nat

text \<open>
  A method returns the manager as it has left it, and the exception that leaves the method,
  if any: the object is mutated in place, so the changes made before a raise persist.
\<close>

type_synonym outcome = "manager \<times> py_exn option"

definition init_manager :: "clock \<Rightarrow> string \<Rightarrow> manager" where
  "init_manager clk rid =
     (let st = \<lparr>research_id = rid, phase = ''init'', message = ''Initializing...'',
                overall_progress = 0, planning_steps = [], active_agents = [],
                tool_executions = [], started_at = datetime_now clk 0,
                updated_at = datetime_now clk 1\<rparr>;
          main = (new_AgentStatus ''main'' None (datetime_now clk 2))
                   \<lparr>agent_status := Member AgentState.IDLE\<rparr>
      in \<lparr>state = st\<lparr>active_agents := active_agents st @ [main]\<rparr>, callback = None,
          step_start_times = Map.empty, tool_start_times = Map.empty,
          callback_calls = [], now_calls = 3, time_calls = 0\<rparr>)"

definition set_callback :: "(ProgressState \<Rightarrow> py_exn option) \<Rightarrow> manager \<Rightarrow> manager" where
  "set_callback cb m = m\<lparr>callback := Some cb\<rparr>"

definition emit_update :: "clock \<Rightarrow> manager \<Rightarrow> outcome" where
  "emit_update clk m =
     (let m1 = m\<lparr>state := (state m)\<lparr>updated_at := datetime_now clk (now_calls m)\<rparr>,
                 now_calls := Suc (now_calls m)\<rparr>
      in case callback m1 of
           None \<Rightarrow> (m1, None)
         | Some cb \<Rightarrow>
             (let m2 = m1\<lparr>callback_calls := callback_calls m1 @ [state m1]\<rparr>
              in case cb (state m1) of
                   None \<Rightarrow> (m2, None)
                 | Some e \<Rightarrow> if is_Exception e then (m2, None) else (m2, Some e)))"

text \<open>Mutating the first element that satisfies \<open>P\<close>, as \<^verbatim>\<open>next(... for ... if ...)\<close> finds it.\<close>

fun update_first :: "('a \<Rightarrow> bool) \<Rightarrow> ('a \<Rightarrow> 'a) \<Rightarrow> 'a list \<Rightarrow> 'a list" where
  "update_first P f [] = []"
| "update_first P f (x # xs) = (if P x then f x # xs else x # update_first P f xs)"

definition get_main_agent :: "manager \<Rightarrow> AgentStatus option" where
  "get_main_agent m = find (\<lambda>a. agent_name a = ''main'') (active_agents (state m))"

definition update_main_agent :: "(AgentStatus \<Rightarrow> AgentStatus) \<Rightarrow> manager \<Rightarrow> manager" where
  "update_main_agent f m =
     m\<lparr>state := (state m)\<lparr>active_agents :=
          update_first (\<lambda>a. agent_name a = ''main'') f (active_agents (state m))\<rparr>\<rparr>"

definition update_phase :: "clock \<Rightarrow> string \<Rightarrow> string \<Rightarrow> int option \<Rightarrow> manager \<Rightarrow> outcome" where
  "update_phase clk ph msg progress m =
     (let m1 = m\<lparr>state := (state m)\<lparr>phase := ph, message := msg\<rparr>\<rparr>;
          m2 = (case progress of
                  None \<Rightarrow> m1
                | Some p \<Rightarrow> m1\<lparr>state := (state m1)\<lparr>overall_progress := p\<rparr>\<rparr>);
          m3 = update_main_agent
                 (\<lambda>a. let a1 = a\<lparr>agent_message := Some msg\<rparr>
                      in if ph = ''planning'' then a1\<lparr>agent_status := Member AgentState.PLANNING\<rparr>
                         else if ph = ''execution'' \<or> ph = ''synthesis''
                           then a1\<lparr>agent_status := Member AgentState.RUNNING\<rparr>
                         else if ph = ''complete''
                           then a1\<lparr>agent_status := Member AgentState.COMPLETED\<rparr>
                         else a1) m2
      in emit_update clk m3)"

definition update_progress :: "clock \<Rightarrow> int \<Rightarrow> string option \<Rightarrow> manager \<Rightarrow> outcome" where
  "update_progress clk progress msg m =
     (let m1 = m\<lparr>state := (state m)\<lparr>overall_progress := min 100 (max 0 progress)\<rparr>\<rparr>;
          m2 = (if truthy msg then m1\<lparr>state := (state m1)\<lparr>message := the msg\<rparr>\<rparr> else m1)
      in emit_update clk m2)"

definition add_planning_step :: "clock \<Rightarrow> PlanningStep \<Rightarrow> manager \<Rightarrow> outcome" where
  "add_planning_step clk step m =
     emit_update clk (m\<lparr>state := (state m)\<lparr>planning_steps := planning_steps (state m) @ [step]\<rparr>\<rparr>)"

definition get_step :: "manager \<Rightarrow> string \<Rightarrow> PlanningStep option" where
  "get_step m sid = find (\<lambda>s. step_id s = sid) (planning_steps (state m))"

text \<open>
  The timing branch of \<^verbatim>\<open>update_step_status\<close> (the \<^verbatim>\<open>if\<close>/\<^verbatim>\<open>elif\<close> on the status string): the step
  with its timestamps, and the manager with the start-time dictionary and the clock reads.
\<close>

definition step_timing ::
    "clock \<Rightarrow> string \<Rightarrow> string \<Rightarrow> manager \<Rightarrow> PlanningStep \<Rightarrow> PlanningStep \<times> manager" where
  "step_timing clk sid status m step =
     (if status = ''in_progress'' then
        (step\<lparr>step_started_at := Some (datetime_now clk (now_calls m))\<rparr>,
         m\<lparr>step_start_times := (step_start_times m)(sid \<mapsto> time_time clk (time_calls m)),
           now_calls := Suc (now_calls m), time_calls := Suc (time_calls m)\<rparr>)
      else if status = ''completed'' \<or> status = ''failed'' then
        (let step' = step\<lparr>step_completed_at := Some (datetime_now clk (now_calls m))\<rparr>;
             m' = m\<lparr>now_calls := Suc (now_calls m)\<rparr>
         in case step_start_times m sid of
              None \<Rightarrow> (step', m')
            | Some t0 \<Rightarrow>
                (let elapsed = float_sub (time_time clk (time_calls m)) t0
                 in (step'\<lparr>step_duration_ms :=
                             Some (py_int (float_mul elapsed (float_of_int 1000)))\<rparr>,
                     m'\<lparr>time_calls := Suc (time_calls m)\<rparr>)))
      else (step, m))"

definition set_step_status :: "string \<Rightarrow> PlanningStep \<Rightarrow> PlanningStep" where
  "set_step_status status step =
     step\<lparr>step_status := (case StepStatus_of status of Some e \<Rightarrow> Member e | None \<Rightarrow> Raw status)\<rparr>"

definition set_details_error :: "string option \<Rightarrow> string option \<Rightarrow> PlanningStep \<Rightarrow> PlanningStep" where
  "set_details_error details error step =
     (let step3 = (if truthy details then step\<lparr>step_details := details\<rparr> else step)
      in if truthy error then step3\<lparr>step_error := error\<rparr> else step3)"

definition update_step_status ::
    "clock \<Rightarrow> string \<Rightarrow> string \<Rightarrow> string option \<Rightarrow> string option \<Rightarrow> manager \<Rightarrow> outcome" where
  "update_step_status clk sid status details error m =
     (case get_step m sid of
        None \<Rightarrow> (m, None)
      | Some step \<Rightarrow>
          (let (step2, m1) = step_timing clk sid status m (set_step_status status step);
               step4 = set_details_error details error step2
           in emit_update clk
                (m1\<lparr>state := (state m1)\<lparr>planning_steps :=
                      update_first (\<lambda>s. step_id s = sid) (\<lambda>s. step4) (planning_steps (state m1))\<rparr>\<rparr>)))"

definition get_completed_steps :: "manager \<Rightarrow> PlanningStep list" where
  "get_completed_steps m =
     filter (\<lambda>s. step_status_str (step_status s) = StepStatus_value StepStatus.COMPLETED)
       (planning_steps (state m))"

definition get_pending_steps :: "manager \<Rightarrow> PlanningStep list" where
  "get_pending_steps m =
     filter (\<lambda>s. step_status_str (step_status s) = StepStatus_value StepStatus.PENDING)
       (planning_steps (state m))"

definition set_agent_status :: "string \<Rightarrow> AgentStatus \<Rightarrow> AgentStatus" where
  "set_agent_status status a =
     a\<lparr>agent_status := (case AgentState_of status of Some e \<Rightarrow> Member e | None \<Rightarrow> Raw status)\<rparr>"

definition update_agent_status ::
    "clock \<Rightarrow> string \<Rightarrow> string \<Rightarrow> string option \<Rightarrow> string option \<Rightarrow> string option \<Rightarrow>
     manager \<Rightarrow> outcome" where
  "update_agent_status clk name status current_tool current_step msg m =
     (let m1 = (case find (\<lambda>a. agent_name a = name) (active_agents (state m)) of
                  Some a \<Rightarrow> m
                | None \<Rightarrow>
                    m\<lparr>state := (state m)\<lparr>active_agents := active_agents (state m) @
                          [new_AgentStatus name None (datetime_now clk (now_calls m))]\<rparr>,
                      now_calls := Suc (now_calls m)\<rparr>);
          upd = (\<lambda>a. let a1 = set_agent_status status a;
                         a2 = (case current_tool of None \<Rightarrow> a1
                               | Some t \<Rightarrow> a1\<lparr>agent_current_tool := Some t\<rparr>);
                         a3 = (case current_step of None \<Rightarrow> a2
                               | Some s \<Rightarrow> a2\<lparr>agent_current_step := Some s\<rparr>)
                     in case msg of None \<Rightarrow> a3 | Some t \<Rightarrow> a3\<lparr>agent_message := Some t\<rparr>)
      in emit_update clk
           (m1\<lparr>state := (state m1)\<lparr>active_agents :=
                 update_first (\<lambda>a. agent_name a = name) upd (active_agents (state m1))\<rparr>\<rparr>))"

definition add_sub_agent :: "clock \<Rightarrow> string \<Rightarrow> string \<Rightarrow> manager \<Rightarrow> outcome" where
  "add_sub_agent clk name parent m =
     emit_update clk
       (m\<lparr>state := (state m)\<lparr>active_agents := active_agents (state m) @
             [new_AgentStatus name (Some parent) (datetime_now clk (now_calls m))]\<rparr>,
         now_calls := Suc (now_calls m)\<rparr>)"

definition remove_sub_agent :: "clock \<Rightarrow> string \<Rightarrow> manager \<Rightarrow> outcome" where
  "remove_sub_agent clk name m =
     emit_update clk
       (m\<lparr>state := (state m)\<lparr>active_agents :=
             filter (\<lambda>a. agent_name a \<noteq> name) (active_agents (state m))\<rparr>\<rparr>)"

definition add_tool_execution :: "clock \<Rightarrow> ToolExecution \<Rightarrow> manager \<Rightarrow> outcome" where
  "add_tool_execution clk execution m =
     (let m1 = m\<lparr>state := (state m)\<lparr>tool_executions := tool_executions (state m) @ [execution]\<rparr>,
                 tool_start_times := (tool_start_times m)(tool execution \<mapsto> time_time clk (time_calls m)),
                 time_calls := Suc (time_calls m)\<rparr>
      in emit_update clk
           (update_main_agent (\<lambda>a. a\<lparr>agent_current_tool := Some (tool execution)\<rparr>) m1))"

text \<open>
  \<^verbatim>\<open>update_tool_execution\<close> replaces the first record with the same tool and start time
  (\<open>replace_execution\<close>, the \<^verbatim>\<open>for\<close> loop with its \<^verbatim>\<open>break\<close>). The clocks are read only when such
  a record exists and the new status is terminal (\<open>tool_timing\<close>).
\<close>

definition same_execution :: "ToolExecution \<Rightarrow> ToolExecution \<Rightarrow> bool" where
  "same_execution execution e \<longleftrightarrow>
     tool e = tool execution \<and> tool_started_at e = tool_started_at execution"

definition is_terminal :: "string \<Rightarrow> bool" where
  "is_terminal status \<longleftrightarrow> status = ''completed'' \<or> status = ''failed''"

definition tool_timing :: "clock \<Rightarrow> manager \<Rightarrow> ToolExecution \<Rightarrow> ToolExecution \<times> manager" where
  "tool_timing clk m execution =
     (if is_terminal (tool_status execution) then
        (let x = execution\<lparr>tool_completed_at := Some (datetime_now clk (now_calls m))\<rparr>;
             m' = m\<lparr>now_calls := Suc (now_calls m)\<rparr>
         in case tool_start_times m (tool execution) of
              None \<Rightarrow> (x, m')
            | Some t0 \<Rightarrow>
                (x\<lparr>tool_duration_ms := Some (py_int (float_mul
                     (float_sub (time_time clk (time_calls m)) t0) (float_of_int 1000)))\<rparr>,
                 m'\<lparr>time_calls := Suc (time_calls m)\<rparr>))
      else (execution, m))"

definition replace_execution :: "clock \<Rightarrow> ToolExecution \<Rightarrow> manager \<Rightarrow> manager" where
  "replace_execution clk execution m =
     (case find (same_execution execution) (tool_executions (state m)) of
        None \<Rightarrow> m
      | Some e \<Rightarrow>
          (let (execution1, m') = tool_timing clk m execution
           in m'\<lparr>state := (state m')\<lparr>tool_executions :=
                  update_first (same_execution execution) (\<lambda>e. execution1)
                    (tool_executions (state m'))\<rparr>\<rparr>))"

definition update_tool_execution :: "clock \<Rightarrow> ToolExecution \<Rightarrow> manager \<Rightarrow> outcome" where
  "update_tool_execution clk execution m =
     (let m1 = replace_execution clk execution m;
          m2 = (if is_terminal (tool_status execution) then
                  update_main_agent
                    (\<lambda>a. if agent_current_tool a = Some (tool execution)
                         then a\<lparr>agent_current_tool := None\<rparr> else a) m1
                else m1)
      in emit_update clk m2)"

definition get_tool_executions :: "manager \<Rightarrow> string option \<Rightarrow> ToolExecution list" where
  "get_tool_executions m t =
     (if truthy t then filter (\<lambda>e. tool e = the t) (tool_executions (state m))
      else tool_executions (state m))"

subsection \<open>Derived progress\<close>

definition count_status :: "StepStatus list \<Rightarrow> PlanningStep list \<Rightarrow> nat" where
  "count_status members steps =
     length (filter (\<lambda>s. step_status_str (step_status s) \<in> set (map StepStatus_value members)) steps)"

text \<open>
  The arithmetic of \<^verbatim>\<open>calculate_overall_progress\<close> on the three counts: \<^verbatim>\<open>/\<close> on two ints is
  true division, every other operation is a float operation, \<^verbatim>\<open>int\<close> truncates.
\<close>

definition progress_from_counts :: "int \<Rightarrow> int \<Rightarrow> int \<Rightarrow> int" where
  "progress_from_counts total_steps completed_steps in_progress_steps =
     (let base_progress = float_mul (int_truediv completed_steps total_steps) (float_of_int 100);
          partial_progress =
            float_mul (float_div (float_mul (float_of_int in_progress_steps) (1 / 2))
                                 (float_of_int total_steps))
                      (float_of_int 100)
      in min 100 (py_int (float_add base_progress partial_progress)))"

definition calculate_overall_progress :: "manager \<Rightarrow> int" where
  "calculate_overall_progress m =
     (if planning_steps (state m) = [] then overall_progress (state m)
      else progress_from_counts
             (int (length (planning_steps (state m))))
             (int (count_status [StepStatus.COMPLETED, StepStatus.SKIPPED]
                     (planning_steps (state m))))
             (int (count_status [StepStatus.IN_PROGRESS] (planning_steps (state m)))))"

section \<open>Runs of tracker operations\<close>

text \<open>
  A caller drives the manager through its mutating methods. A run applies a list of calls in
  order; a call that lets an exception escape has still mutated the manager, and the caller
  may go on, so the run continues from the manager as it was left.
\<close>

text \<open>A clock for concrete runs: the \<open>n\<close>-th reading is \<open>n\<close>.\<close>

definition epoch_clock :: clock where
  "epoch_clock = \<lparr>datetime_now = (\<lambda>n. int n), time_time = (\<lambda>n. of_nat n)\<rparr>"

datatype tracker_op =
    Set_callback "ProgressState \<Rightarrow> py_exn option"
  | Update_phase string string "int option"
  | Update_progress int "string option"
  | Add_planning_step PlanningStep
  | Update_step_status string string "string option" "string option"
  | Update_agent_status string string "string option" "string option" "string option"
  | Add_sub_agent string string
  | Remove_sub_agent string
  | Add_tool_execution ToolExecution
  | Update_tool_execution ToolExecution

fun apply_op :: "clock \<Rightarrow> tracker_op \<Rightarrow> manager \<Rightarrow> outcome" where
  "apply_op clk (Set_callback cb) m = (set_callback cb m, None)"
| "apply_op clk (Update_phase ph msg p) m = update_phase clk ph msg p m"
| "apply_op clk (Update_progress p msg) m = update_progress clk p msg m"
| "apply_op clk (Add_planning_step s) m = add_planning_step clk s m"
| "apply_op clk (Update_step_status sid st d e) m = update_step_status clk sid st d e m"
| "apply_op clk (Update_agent_status n st t s msg) m = update_agent_status clk n st t s msg m"
| "apply_op clk (Add_sub_agent n p) m = add_sub_agent clk n p m"
| "apply_op clk (Remove_sub_agent n) m = remove_sub_agent clk n m"
| "apply_op clk (Add_tool_execution x) m = add_tool_execution clk x m"
| "apply_op clk (Update_tool_execution x) m = update_tool_execution clk x m"

fun run_ops :: "clock \<Rightarrow> tracker_op list \<Rightarrow> manager \<Rightarrow> manager" where
  "run_ops clk [] m = m"
| "run_ops clk (op # ops) m = run_ops clk ops (fst (apply_op clk op m))"

definition agent_names :: "manager \<Rightarrow> string list" where
  "agent_names m = map agent_name (active_agents (state m))"

text \<open>
  What a callback cannot influence: the progress state, the two start-time dictionaries and
  the clock reads (everything of the manager but the callback and the record of its calls).
\<close>

definition same_tracked :: "manager \<Rightarrow> manager \<Rightarrow> bool" where
  "same_tracked m m' \<longleftrightarrow>
     state m = state m' \<and> step_start_times m = step_start_times m' \<and>
     tool_start_times m = tool_start_times m' \<and> now_calls m = now_calls m' \<and>
     time_calls m = time_calls m'"

definition raises_only_Exception :: "(ProgressState \<Rightarrow> py_exn option) \<Rightarrow> bool" where
  "raises_only_Exception cb \<longleftrightarrow> (\<forall>s e. cb s = Some e \<longrightarrow> is_Exception e)"

text \<open>
  The step that \<^verbatim>\<open>update_step_status\<close> leaves in place of the step it has found. A call that
  adds a step whose duration is null, as the dataclass default makes it; a call that sets the
  step \<open>sid\<close> to \<^verbatim>\<open>completed\<close> or \<^verbatim>\<open>failed\<close>.
\<close>

definition updated_step ::
    "clock \<Rightarrow> string \<Rightarrow> string \<Rightarrow> string option \<Rightarrow> string option \<Rightarrow> manager \<Rightarrow>
     PlanningStep \<Rightarrow> PlanningStep" where
  "updated_step clk sid st d e m step =
     set_details_error d e (fst (step_timing clk sid st m (set_step_status st step)))"

fun adds_blank_duration :: "tracker_op \<Rightarrow> bool" where
  "adds_blank_duration (Add_planning_step s) = (step_duration_ms s = None)"
| "adds_blank_duration op = True"

fun terminal_update_of :: "string \<Rightarrow> tracker_op \<Rightarrow> bool" where
  "terminal_update_of sid (Update_step_status sid' st d e) = (sid' = sid \<and> is_terminal st)"
| "terminal_update_of sid op = False"

definition durations_null :: "string \<Rightarrow> manager \<Rightarrow> bool" where
  "durations_null sid m \<longleftrightarrow>
     (\<forall>s \<in> set (planning_steps (state m)). step_id s = sid \<longrightarrow> step_duration_ms s = None)"

section \<open>Strings\<close>

text \<open>
  The string methods the plan parser and the formatter use, on strings of code points below
  256: \<^verbatim>\<open>isspace\<close> and \<^verbatim>\<open>lower\<close> as Python defines them on that range, \<^verbatim>\<open>strip()\<close>,
  \<^verbatim>\<open>startswith\<close>, \<^verbatim>\<open>split(sep)\<close> on a one-character separator, \<^verbatim>\<open>split(sep, 1)\<close>,
  \<^verbatim>\<open>replace\<close> (for a non-empty pattern) and \<^verbatim>\<open>str\<close> of a non-negative int.
\<close>

definition is_space :: "char \<Rightarrow> bool" where
  "is_space c \<longleftrightarrow> of_char c \<in> {9, 10, 11, 12, 13, 28, 29, 30, 31, 32, 133, 160 :: nat}"

definition strip :: "string \<Rightarrow> string" where
  "strip s = rev (dropWhile is_space (rev (dropWhile is_space s)))"

definition startswith :: "string \<Rightarrow> string \<Rightarrow> bool" where
  "startswith p s \<longleftrightarrow> take (length p) s = p"

fun split_char :: "char \<Rightarrow> string \<Rightarrow> string list" where
  "split_char sep [] = [[]]"
| "split_char sep (c # cs) =
     (if c = sep then [] # split_char sep cs
      else (case split_char sep cs of p # ps \<Rightarrow> (c # p) # ps | [] \<Rightarrow> [[c]]))"

definition split_once :: "char \<Rightarrow> string \<Rightarrow> string list" where
  "split_once sep s =
     (if sep \<in> set s then [takeWhile (\<lambda>c. c \<noteq> sep) s, tl (dropWhile (\<lambda>c. c \<noteq> sep) s)]
      else [s])"

fun str_replace :: "string \<Rightarrow> string \<Rightarrow> string \<Rightarrow> string" where
  "str_replace old new [] = []"
| "str_replace old new (c # cs) =
     (if old \<noteq> [] \<and> startswith old (c # cs)
      then new @ str_replace old new (drop (length old - 1) cs)
      else c # str_replace old new cs)"

definition lower_char :: "char \<Rightarrow> char" where
  "lower_char c =
     (let n = of_char c :: nat
      in if (65 \<le> n \<and> n \<le> 90) \<or> (192 \<le> n \<and> n \<le> 222 \<and> n \<noteq> 215)
         then char_of (n + 32) else c)"

definition lower :: "string \<Rightarrow> string" where
  "lower s = map lower_char s"

fun str_nat :: "nat \<Rightarrow> string" where
  "str_nat n = (if n < 10 then [char_of (48 + n)] else str_nat (n div 10) @ [char_of (48 + n mod 10)])"

declare str_nat.simps [simp del]

section \<open>The plan parser (deep\_agent\_system.py)\<close>

text \<open>
  \<^verbatim>\<open>_parse_plan\<close>: the loop over the stripped lines is \<open>parse_lines\<close>, with the list of
  steps, the open step (the dict \<^verbatim>\<open>current_step\<close> with its id, name and action, or \<^verbatim>\<open>None\<close>)
  and the last id given.
\<close>

type_synonym step_dict = "string \<times> string \<times> string"

fun parse_lines ::
    "string list \<Rightarrow> PlanningStep list \<Rightarrow> step_dict option \<Rightarrow> nat \<Rightarrow>
     PlanningStep list \<times> step_dict option" where
  "parse_lines [] steps current_step last_id = (steps, current_step)"
| "parse_lines (raw # lines) steps current_step last_id =
     (let line = strip raw
      in if startswith ''STEP'' line then
           (let next_id = last_id + 1;
                parts = split_once (CHR '':'') line;
                name = (if length parts > 1 then strip (parts ! 1) else ''Step '' @ str_nat next_id)
            in parse_lines lines steps (Some (str_nat next_id, name, ''unknown'')) next_id)
         else if startswith ''ACTION:'' line \<and> current_step \<noteq> None then
           (let action = lower (strip (str_replace ''ACTION:'' '''' line));
                (i, n, a) = the current_step
            in parse_lines lines (steps @ [new_PlanningStep i n action]) None last_id)
         else parse_lines lines steps current_step last_id)"

definition parse_plan :: "string \<Rightarrow> PlanningStep list" where
  "parse_plan plan_text =
     (let (steps, current_step) = parse_lines (split_char (CHR 0x0A) (strip plan_text)) [] None 0;
          steps' = (case current_step of
                      None \<Rightarrow> steps
                    | Some (i, n, a) \<Rightarrow> steps @ [new_PlanningStep i n a])
      in if steps' \<noteq> [] then steps'
         else [new_PlanningStep ''1'' ''Analyze query'' ''pubmed_search''])"

section \<open>The result formatter\<close>

text \<open>
  A finding and a source are dicts; a key that may be missing is an optional field.
  \<^verbatim>\<open>finding['step_name']\<close> on a finding without that key raises \<^verbatim>\<open>KeyError\<close>.
\<close>

record source =
  src_title :: "string option"
  src_link :: "string option"

record finding =
  f_step_id :: "string option"
  f_step_name :: "string option"
  f_action :: "string option"
  f_content :: "string option"
  f_sources :: "source list option"
  f_evidence_levels :: "(string \<times> string) list option"
  f_error :: "string option"

record report =
  r_query :: string
  r_findings :: "finding list"
  formatted_findings :: string
  current_knowledge :: string
  iterations :: nat
  r_all_links_of_system :: "source list"

definition get_or :: "'a option \<Rightarrow> 'a \<Rightarrow> 'a" where
  "get_or v d = (case v of None \<Rightarrow> d | Some x \<Rightarrow> x)"

fun collect_sources :: "finding list \<Rightarrow> source list \<Rightarrow> source list" where
  "collect_sources [] all_sources = all_sources"
| "collect_sources (f # fs) all_sources = collect_sources fs (all_sources @ get_or (f_sources f) [])"

definition report_header :: "string \<Rightarrow> string \<Rightarrow> string" where
  "report_header query synthesis =
     ''# Research Report: '' @ query @ [CHR 0x0A, CHR 0x0A] @
     ''## Executive Summary'' @ [CHR 0x0A] @ synthesis @ [CHR 0x0A, CHR 0x0A] @
     ''## Detailed Findings'' @ [CHR 0x0A]"

definition finding_section :: "string \<Rightarrow> string \<Rightarrow> string" where
  "finding_section name content =
     [CHR 0x0A] @ ''### '' @ name @ [CHR 0x0A] @ content @ [CHR 0x0A]"

fun format_findings :: "finding list \<Rightarrow> string \<Rightarrow> py_exn + string" where
  "format_findings [] out = Inr out"
| "format_findings (f # fs) out =
     (if truthy (f_content f) \<and> \<not> truthy (f_error f) then
        (case f_step_name f of
           None \<Rightarrow> Inl (Exception ([CHR 0x27] @ ''step_name'' @ [CHR 0x27]))
         | Some name \<Rightarrow> format_findings fs (out @ finding_section name (the (f_content f))))
      else format_findings fs out)"

definition source_line :: "nat \<Rightarrow> source \<Rightarrow> string" where
  "source_line i src =
     str_nat i @ ''. ['' @ get_or (src_title src) ''Unknown'' @ '']('' @
     get_or (src_link src) '''' @ '')'' @ [CHR 0x0A]"

fun format_sources :: "nat \<Rightarrow> source list \<Rightarrow> string \<Rightarrow> string" where
  "format_sources i [] out = out"
| "format_sources i (src # srcs) out = format_sources (i + 1) srcs (out @ source_line i src)"

definition format_results ::
    "source list \<Rightarrow> string \<Rightarrow> finding list \<Rightarrow> string \<Rightarrow> py_exn + report" where
  "format_results links query findings synthesis =
     (let all_sources = collect_sources findings []
      in case format_findings findings (report_header query synthesis) of
           Inl e \<Rightarrow> Inl e
         | Inr body \<Rightarrow>
             (let out = (if all_sources \<noteq> []
                         then format_sources 1 (take 20 all_sources)
                                (body @ [CHR 0x0A] @ ''## Sources'' @ [CHR 0x0A])
                         else body)
              in Inr \<lparr>r_query = query, r_findings = findings, formatted_findings = out,
                      current_knowledge = synthesis, iterations = length findings,
                      r_all_links_of_system = links\<rparr>))"


text \<open>A finding whose section \<^verbatim>\<open>_format_results\<close> writes: the test of its second loop.\<close>

definition rendered :: "finding \<Rightarrow> bool" where
  "rendered f \<longleftrightarrow> truthy (f_content f) \<and> \<not> truthy (f_error f)"

section \<open>The step orchestrator\<close>

text \<open>
  The language model, the tools and the search engine are oracles, indexed by the number of
  the step that calls them: \<open>tool_invoke co i name arg\<close> is what the tool \<open>name\<close> returns or
  raises on \<open>arg\<close> during step \<open>i\<close>, \<open>model_invoke co i p\<close> the content of the model's response to
  the prompt \<open>p\<close> (a prompt template with its arguments), \<open>search_run co i query\<close> what the search
  engine returns. \<open>progress_callback co\<close> is the callback of the system, \<open>None\<close> when it returns.
  The callback is shown the step as the caller holds it.
\<close>

datatype prompt = Pico_prompt string | Evidence_prompt string | Synthesis_prompt string string

datatype search_item =
  Dict_item "string option" "string option" "string option" "string option" | Other_item

record step_result =
  res_content :: string
  res_sources :: "source list"
  res_evidence_levels :: "(string \<times> string) list option"

record callback_metadata =
  md_phase :: string
  md_current_step :: PlanningStep
  md_hierarchical_progress :: bool

record collaborators =
  tool_invoke :: "nat \<Rightarrow> string \<Rightarrow> string \<Rightarrow> py_exn + string"
  model_invoke :: "nat \<Rightarrow> prompt \<Rightarrow> py_exn + string"
  search_present :: bool
  search_run :: "nat \<Rightarrow> string \<Rightarrow> py_exn + search_item list"
  progress_callback :: "string \<Rightarrow> int \<Rightarrow> callback_metadata \<Rightarrow> py_exn option"

record system =
  progress_manager :: manager
  all_links_of_system :: "source list"

definition tools :: "string list" where
  "tools = [''pico_query_builder'', ''mesh_term_mapping'', ''pubmed_search'',
            ''evidence_classifier'', ''citation_formatter'']"

fun contains :: "string \<Rightarrow> string \<Rightarrow> bool" where
  "contains p [] = (p = [])"
| "contains p (c # cs) = (startswith p (c # cs) \<or> contains p cs)"

definition get_tool :: "string \<Rightarrow> string option" where
  "get_tool name_fragment = find (\<lambda>name. contains name_fragment (lower name)) tools"

definition try_tool :: "collaborators \<Rightarrow> nat \<Rightarrow> string \<Rightarrow> string \<Rightarrow> (py_exn + string) option" where
  "try_tool co i name_fragment arg =
     (case get_tool name_fragment of
        None \<Rightarrow> None
      | Some t \<Rightarrow>
          (case tool_invoke co i t arg of
             Inr r \<Rightarrow> Some (Inr r)
           | Inl e \<Rightarrow> if is_Exception e then None else Some (Inl e)))"

definition make_result :: "string \<Rightarrow> source list \<Rightarrow> (string \<times> string) list option \<Rightarrow> step_result" where
  "make_result c srcs lv = \<lparr>res_content = c, res_sources = srcs, res_evidence_levels = lv\<rparr>"

definition llm_result ::
    "collaborators \<Rightarrow> nat \<Rightarrow> prompt \<Rightarrow> (string \<times> string) list option \<Rightarrow> py_exn + step_result" where
  "llm_result co i p lv =
     (case model_invoke co i p of Inl e \<Rightarrow> Inl e | Inr c \<Rightarrow> Inr (make_result c [] lv))"

definition execute_pico_query :: "collaborators \<Rightarrow> nat \<Rightarrow> string \<Rightarrow> string \<Rightarrow> py_exn + step_result" where
  "execute_pico_query co i query context =
     (case try_tool co i ''pico'' query of
        Some (Inr r) \<Rightarrow> Inr (make_result r [] None)
      | Some (Inl e) \<Rightarrow> Inl e
      | None \<Rightarrow> llm_result co i (Pico_prompt query) None)"

definition execute_mesh_mapping :: "collaborators \<Rightarrow> nat \<Rightarrow> string \<Rightarrow> string \<Rightarrow> py_exn + step_result" where
  "execute_mesh_mapping co i query context =
     (case try_tool co i ''mesh'' query of
        Some (Inr r) \<Rightarrow> Inr (make_result r [] None)
      | Some (Inl e) \<Rightarrow> Inl e
      | None \<Rightarrow> Inr (make_result (''MeSH mapping for: '' @ query) [] None))"

definition extract_sources_from_search :: "string \<Rightarrow> source list" where
  "extract_sources_from_search result = []"

fun join :: "string \<Rightarrow> string list \<Rightarrow> string" where
  "join sep [] = []"
| "join sep [x] = x"
| "join sep (x # y # ys) = x @ sep @ join sep (y # ys)"

fun format_search_item :: "search_item \<Rightarrow> string list" where
  "format_search_item (Dict_item title snippet content link) =
     [''**'' @ get_or title ''Unknown'' @ ''**'' @ [CHR 0x0A] @
      take 300 (get_or snippet (get_or content '''')) @ [CHR 0x0A] @
      ''Source: '' @ get_or link '''' @ [CHR 0x0A]]"
| "format_search_item Other_item = []"

definition format_search_results :: "search_item list \<Rightarrow> string" where
  "format_search_results results =
     (if results = [] then ''No results found.''
      else (let formatted = concat (map format_search_item (take 10 results))
            in if formatted \<noteq> [] then join [CHR 0x0A, CHR 0x0A] formatted
               else ''No results found.''))"

fun item_source :: "search_item \<Rightarrow> source list" where
  "item_source (Dict_item title snippet content link) =
     [\<lparr>src_title = Some (get_or title ''''), src_link = Some (get_or link '''')\<rparr>]"
| "item_source Other_item = []"

definition execute_pubmed_search :: "collaborators \<Rightarrow> nat \<Rightarrow> string \<Rightarrow> string \<Rightarrow> py_exn + step_result" where
  "execute_pubmed_search co i query context =
     (let no_results = Inr (make_result ''No search results available'' [] None)
      in case try_tool co i ''pubmed'' query of
           Some (Inr r) \<Rightarrow> Inr (make_result r (extract_sources_from_search r) None)
         | Some (Inl e) \<Rightarrow> Inl e
         | None \<Rightarrow>
             (if search_present co then
                (case search_run co i query of
                   Inr results \<Rightarrow>
                     Inr (make_result (format_search_results results)
                            (concat (map item_source results)) None)
                 | Inl e \<Rightarrow> if is_Exception e then no_results else Inl e)
              else no_results))"

definition execute_evidence_classification :: "collaborators \<Rightarrow> nat \<Rightarrow> string \<Rightarrow> py_exn + step_result" where
  "execute_evidence_classification co i context =
     (case try_tool co i ''evidence'' context of
        Some (Inr r) \<Rightarrow> Inr (make_result r [] (Some []))
      | Some (Inl e) \<Rightarrow> Inl e
      | None \<Rightarrow> llm_result co i (Evidence_prompt context) (Some []))"

definition execute_synthesis :: "collaborators \<Rightarrow> nat \<Rightarrow> string \<Rightarrow> string \<Rightarrow> py_exn + step_result" where
  "execute_synthesis co i query context = llm_result co i (Synthesis_prompt query context) None"

datatype handler = Pico_query | Mesh_mapping | Pubmed_search | Evidence_classification | Synthesis

definition action_handlers :: "string \<rightharpoonup> handler" where
  "action_handlers =
     [''pico_query'' \<mapsto> Pico_query, ''pico'' \<mapsto> Pico_query,
      ''mesh_mapping'' \<mapsto> Mesh_mapping, ''mesh'' \<mapsto> Mesh_mapping,
      ''pubmed_search'' \<mapsto> Pubmed_search, ''search'' \<mapsto> Pubmed_search,
      ''pubmed'' \<mapsto> Pubmed_search,
      ''evidence_classification'' \<mapsto> Evidence_classification,
      ''evidence'' \<mapsto> Evidence_classification, ''classify'' \<mapsto> Evidence_classification,
      ''synthesis'' \<mapsto> Synthesis, ''synthesize'' \<mapsto> Synthesis]"

fun call_handler ::
    "collaborators \<Rightarrow> nat \<Rightarrow> handler \<Rightarrow> string list \<Rightarrow> py_exn + step_result" where
  "call_handler co i Pico_query [query, context] = execute_pico_query co i query context"
| "call_handler co i Mesh_mapping [query, context] = execute_mesh_mapping co i query context"
| "call_handler co i Pubmed_search [query, context] = execute_pubmed_search co i query context"
| "call_handler co i Synthesis [query, context] = execute_synthesis co i query context"
| "call_handler co i Evidence_classification [context] = execute_evidence_classification co i context"
| "call_handler co i h args = Inl (Exception ''TypeError'')"

definition run_handler ::
    "collaborators \<Rightarrow> nat \<Rightarrow> string \<Rightarrow> string \<Rightarrow> string \<Rightarrow> py_exn + step_result" where
  "run_handler co i action query context =
     (let handler = get_or (action_handlers action) Pubmed_search
      in if action \<in> {''evidence_classification'', ''evidence'', ''classify''}
         then call_handler co i handler [context]
         else call_handler co i handler [query, context])"


definition new_ToolExecution :: "string \<Rightarrow> string \<Rightarrow> string option \<Rightarrow> datetime \<Rightarrow> ToolExecution" where
  "new_ToolExecution t st q now =
     \<lparr>tool = t, tool_status = st, tool_query = q, tool_started_at = now,
      tool_completed_at = None, tool_duration_ms = None, tool_result_preview = None,
      tool_error = None\<rparr>"

text \<open>The body of the \<^verbatim>\<open>try\<close> of \<^verbatim>\<open>_execute_step\<close>.\<close>

definition execute_step_try ::
    "collaborators \<Rightarrow> clock \<Rightarrow> nat \<Rightarrow> string \<Rightarrow> ToolExecution \<Rightarrow> string \<Rightarrow> string \<Rightarrow> manager \<Rightarrow>
     manager \<times> (py_exn + step_result)" where
  "execute_step_try co clk i action tool_exec query context m =
     (case run_handler co i action query context of
        Inl e \<Rightarrow> (m, Inl e)
      | Inr result \<Rightarrow>
          (let (m', x) = update_tool_execution clk (tool_exec\<lparr>tool_status := ''completed''\<rparr>) m
           in (m', case x of None \<Rightarrow> Inr result | Some e \<Rightarrow> Inl e)))"

definition execute_step ::
    "collaborators \<Rightarrow> clock \<Rightarrow> nat \<Rightarrow> PlanningStep \<Rightarrow> string \<Rightarrow> string \<Rightarrow> manager \<Rightarrow>
     manager \<times> (py_exn + step_result)" where
  "execute_step co clk i step query context m =
     (let action = lower (step_action step);
          tool_exec = new_ToolExecution action ''running''
                        (Some (if length query > 100 then take 100 query else query))
                        (datetime_now clk (now_calls m));
          (m1, x1) = add_tool_execution clk tool_exec (m\<lparr>now_calls := Suc (now_calls m)\<rparr>)
      in case x1 of
           Some e \<Rightarrow> (m1, Inl e)
         | None \<Rightarrow>
             (case execute_step_try co clk i action tool_exec query context m1 of
                (m2, Inr result) \<Rightarrow> (m2, Inr result)
              | (m2, Inl e) \<Rightarrow>
                  (if is_Exception e then
                     (let (m3, x3) = update_tool_execution clk
                            (tool_exec\<lparr>tool_status := ''failed'', tool_error := Some (str_exn e)\<rparr>) m2
                      in (m3, Inl (case x3 of None \<Rightarrow> e | Some e' \<Rightarrow> e')))
                   else (m2, Inl e))))"

definition success_finding :: "PlanningStep \<Rightarrow> step_result \<Rightarrow> finding" where
  "success_finding step result =
     \<lparr>f_step_id = Some (step_id step), f_step_name = Some (step_name step),
      f_action = Some (step_action step), f_content = Some (res_content result),
      f_sources = Some (res_sources result),
      f_evidence_levels = Some (get_or (res_evidence_levels result) []), f_error = None\<rparr>"

definition error_finding :: "PlanningStep \<Rightarrow> py_exn \<Rightarrow> finding" where
  "error_finding step e =
     \<lparr>f_step_id = Some (step_id step), f_step_name = Some (step_name step),
      f_action = Some (step_action step), f_content = Some (''Error: '' @ str_exn e),
      f_sources = Some [], f_evidence_levels = None, f_error = Some (str_exn e)\<rparr>"

text \<open>A result dict is true when it has a key; every handler's result has two or three.\<close>

definition result_keys :: "step_result \<Rightarrow> string list" where
  "result_keys result =
     [''content'', ''sources''] @
     (case res_evidence_levels result of None \<Rightarrow> [] | Some lv \<Rightarrow> [''evidence_levels''])"

record plan_state =
  ps_manager :: manager
  ps_links :: "source list"
  ps_findings :: "finding list"
  ps_context :: string

text \<open>What the \<^verbatim>\<open>try\<close> of the loop body does with a result of \<^verbatim>\<open>_execute_step\<close>.\<close>

definition record_result :: "PlanningStep \<Rightarrow> step_result \<Rightarrow> plan_state \<Rightarrow> plan_state" where
  "record_result step result st =
     (if result_keys result \<noteq> [] then
        st\<lparr>ps_findings := ps_findings st @ [success_finding step result],
           ps_context := ps_context st @ [CHR 0x0A] @ ''## '' @ step_name step @ [CHR 0x0A] @
                           res_content result @ [CHR 0x0A],
           ps_links := (if res_sources result \<noteq> [] then ps_links st @ res_sources result
                        else ps_links st)\<rparr>
      else st)"

definition step_progress :: "nat \<Rightarrow> nat \<Rightarrow> int" where
  "step_progress i n = 20 + py_int (float_mul (int_truediv (int i) (int n)) (float_of_int 60))"

definition execute_one ::
    "collaborators \<Rightarrow> clock \<Rightarrow> string \<Rightarrow> nat \<Rightarrow> nat \<Rightarrow> PlanningStep \<Rightarrow> plan_state \<Rightarrow>
     plan_state \<times> py_exn option" where
  "execute_one co clk query n i step st =
     (let (m1, x1) = update_step_status clk (step_id step) ''in_progress'' None None (ps_manager st);
          st1 = st\<lparr>ps_manager := m1\<rparr>
      in case x1 of
           Some e \<Rightarrow> (st1, Some e)
         | None \<Rightarrow>
            (case progress_callback co (''Executing: '' @ step_name step) (step_progress i n)
                    \<lparr>md_phase = ''execution'', md_current_step = step,
                     md_hierarchical_progress = True\<rparr> of
               Some e \<Rightarrow> (st1, Some e)
             | None \<Rightarrow>
                (let (m2, r) = execute_step co clk i step query (ps_context st1) m1;
                     st2 = st1\<lparr>ps_manager := m2\<rparr>;
                     (st3, raised) =
                       (case r of
                          Inl e \<Rightarrow> (st2, Some e)
                        | Inr result \<Rightarrow>
                            (let st' = record_result step result st2;
                                 (m3, x3) = update_step_status clk (step_id step) ''completed''
                                              None None (ps_manager st')
                             in (st'\<lparr>ps_manager := m3\<rparr>, x3)))
                 in case raised of
                      None \<Rightarrow> (st3, None)
                    | Some e \<Rightarrow>
                        (if is_Exception e then
                           (let (m4, x4) = update_step_status clk (step_id step) ''failed''
                                             None None (ps_manager st3)
                            in case x4 of
                                 Some e' \<Rightarrow> (st3\<lparr>ps_manager := m4\<rparr>, Some e')
                               | None \<Rightarrow>
                                   (st3\<lparr>ps_manager := m4,
                                        ps_findings := ps_findings st3 @ [error_finding step e]\<rparr>,
                                    None))
                         else (st3, Some e)))))"

fun plan_loop ::
    "collaborators \<Rightarrow> clock \<Rightarrow> string \<Rightarrow> nat \<Rightarrow> nat \<Rightarrow> PlanningStep list \<Rightarrow> plan_state \<Rightarrow>
     plan_state \<times> py_exn option" where
  "plan_loop co clk query n i [] st = (st, None)"
| "plan_loop co clk query n i (step # steps) st =
     (case execute_one co clk query n i step st of
        (st', Some e) \<Rightarrow> (st', Some e)
      | (st', None) \<Rightarrow> plan_loop co clk query n (Suc i) steps st')"

definition initial_plan_state :: "string \<Rightarrow> system \<Rightarrow> plan_state" where
  "initial_plan_state query sys =
     \<lparr>ps_manager = progress_manager sys, ps_links = all_links_of_system sys, ps_findings = [],
      ps_context = ''Original Query: '' @ query @ [CHR 0x0A, CHR 0x0A]\<rparr>"

definition execute_research_plan ::
    "collaborators \<Rightarrow> clock \<Rightarrow> string \<Rightarrow> PlanningStep list \<Rightarrow> system \<Rightarrow>
     system \<times> (py_exn + finding list)" where
  "execute_research_plan co clk query steps sys =
     (let (st, x) = plan_loop co clk query (length steps) 0 steps (initial_plan_state query sys)
      in (\<lparr>progress_manager = ps_manager st, all_links_of_system = ps_links st\<rparr>,
          case x of None \<Rightarrow> Inr (ps_findings st) | Some e \<Rightarrow> Inl e))"

text \<open>
  Collaborators that raise instances of \<^verbatim>\<open>Exception\<close> only, and whose progress callback
  returns; a manager whose callback, if any, raises instances of \<^verbatim>\<open>Exception\<close> only.
\<close>

definition well_behaved :: "collaborators \<Rightarrow> bool" where
  "well_behaved co \<longleftrightarrow>
     (\<forall>i t a e. tool_invoke co i t a = Inl e \<longrightarrow> is_Exception e) \<and>
     (\<forall>i p e. model_invoke co i p = Inl e \<longrightarrow> is_Exception e) \<and>
     (\<forall>i q e. search_run co i q = Inl e \<longrightarrow> is_Exception e) \<and>
     (\<forall>msg p md. progress_callback co msg p md = None)"

definition quiet_callback :: "manager \<Rightarrow> bool" where
  "quiet_callback m \<longleftrightarrow> (case callback m of None \<Rightarrow> True | Some cb \<Rightarrow> raises_only_Exception cb)"

text \<open>
  The loop state when step \<open>k\<close> is about to start, and what the handler of step \<open>i\<close> returns or
  raises when it is called in the context accumulated by then.
\<close>

definition plan_prefix ::
    "collaborators \<Rightarrow> clock \<Rightarrow> string \<Rightarrow> PlanningStep list \<Rightarrow> system \<Rightarrow> nat \<Rightarrow> plan_state" where
  "plan_prefix co clk query steps sys k =
     fst (plan_loop co clk query (length steps) 0 (take k steps) (initial_plan_state query sys))"

definition handler_outcome ::
    "collaborators \<Rightarrow> clock \<Rightarrow> string \<Rightarrow> PlanningStep list \<Rightarrow> system \<Rightarrow> nat \<Rightarrow>
     py_exn + step_result" where
  "handler_outcome co clk query steps sys i =
     run_handler co i (lower (step_action (steps ! i))) query
       (ps_context (plan_prefix co clk query steps sys i))"

section \<open>Properties of the progress manager\<close>

subsection \<open>Emission\<close>

lemma state_emit_update:
  "state (fst (emit_update clk m)) = (state m)\<lparr>updated_at := datetime_now clk (now_calls m)\<rparr>"
  by (simp add: emit_update_def Let_def split: option.splits)

subsection \<open>The main agent\<close>

lemma get_main_agent_iff: "get_main_agent m \<noteq> None \<longleftrightarrow> ''main'' \<in> set (agent_names m)"
  by (force simp: get_main_agent_def agent_names_def find_None_iff)

lemma map_update_first:
  "(\<And>x. g (f x) = g x) \<Longrightarrow> map g (update_first P f xs) = map g xs"
  by (induction xs) auto

lemma agent_names_emit: "agent_names (fst (emit_update clk m)) = agent_names m"
  by (simp add: agent_names_def state_emit_update)

lemma agent_names_update_main:
  "(\<And>a. agent_name (f a) = agent_name a) \<Longrightarrow> agent_names (update_main_agent f m) = agent_names m"
  by (simp add: agent_names_def update_main_agent_def map_update_first)

lemma agent_names_state_cong:
  "active_agents (state m') = active_agents (state m) \<Longrightarrow> agent_names m' = agent_names m"
  by (simp add: agent_names_def)

lemma find_filter_implied:
  "(\<And>x. P x \<Longrightarrow> Q x) \<Longrightarrow> find P (filter Q xs) = find P xs"
  by (induction xs) auto

lemma names_update_phase: "agent_names (fst (update_phase clk ph msg p m)) = agent_names m"
  unfolding update_phase_def Let_def agent_names_emit
  by (subst agent_names_update_main) (auto intro!: agent_names_state_cong split: option.splits)

lemma names_update_progress: "agent_names (fst (update_progress clk p msg m)) = agent_names m"
  unfolding update_progress_def Let_def agent_names_emit
  by (auto intro!: agent_names_state_cong)

lemma names_add_planning_step: "agent_names (fst (add_planning_step clk s m)) = agent_names m"
  unfolding add_planning_step_def agent_names_emit
  by (auto intro!: agent_names_state_cong)

lemma agents_step_timing:
  "active_agents (state (snd (step_timing clk sid st m step))) = active_agents (state m)"
  by (simp add: step_timing_def Let_def split: option.splits)

lemma names_update_step_status:
  "agent_names (fst (update_step_status clk sid st d e m)) = agent_names m"
proof (cases "get_step m sid")
  case None
  then show ?thesis by (simp add: update_step_status_def)
next
  case (Some step)
  obtain step2 m1 where t: "step_timing clk sid st m (set_step_status st step) = (step2, m1)"
    by (cases "step_timing clk sid st m (set_step_status st step)")
  have "active_agents (state m1) = active_agents (state m)"
    using agents_step_timing[of clk sid st m "set_step_status st step"] t by simp
  then show ?thesis
    using Some t by (simp add: update_step_status_def agent_names_emit) (simp add: agent_names_def)
qed

lemma names_update_agent_status:
  "set (agent_names m) \<subseteq> set (agent_names (fst (update_agent_status clk n st t s msg m)))"
  unfolding update_agent_status_def Let_def agent_names_emit
  by (auto simp: agent_names_def map_update_first set_agent_status_def new_AgentStatus_def split: option.splits)

lemma names_add_sub_agent:
  "agent_names (fst (add_sub_agent clk n p m)) = agent_names m @ [n]"
  unfolding add_sub_agent_def agent_names_emit
  by (simp add: agent_names_def new_AgentStatus_def)

lemma names_remove_sub_agent:
  "agent_names (fst (remove_sub_agent clk n m)) = filter (\<lambda>x. x \<noteq> n) (agent_names m)"
  unfolding remove_sub_agent_def agent_names_emit
  by (simp add: agent_names_def filter_map comp_def)

lemma names_add_tool_execution:
  "agent_names (fst (add_tool_execution clk x m)) = agent_names m"
  unfolding add_tool_execution_def Let_def agent_names_emit
  by (subst agent_names_update_main) (auto intro!: agent_names_state_cong)

lemma agents_tool_timing:
  "active_agents (state (snd (tool_timing clk m x))) = active_agents (state m)"
  by (simp add: tool_timing_def Let_def split: option.splits)

lemma agents_replace_execution:
  "active_agents (state (replace_execution clk x m)) = active_agents (state m)"
proof (cases "find (same_execution x) (tool_executions (state m))")
  case None
  then show ?thesis by (simp add: replace_execution_def)
next
  case (Some e)
  obtain x1 m' where t: "tool_timing clk m x = (x1, m')"
    by (cases "tool_timing clk m x")
  with agents_tool_timing[of clk m x] Some show ?thesis
    by (simp add: replace_execution_def)
qed

lemma names_update_tool_execution:
  "agent_names (fst (update_tool_execution clk x m)) = agent_names m"
proof -
  have upd: "\<And>m'. agent_names (update_main_agent
                    (\<lambda>a. if agent_current_tool a = Some (tool x)
                         then a\<lparr>agent_current_tool := None\<rparr> else a) m') = agent_names m'"
    by (rule agent_names_update_main) simp
  have "agent_names (replace_execution clk x m) = agent_names m"
    by (rule agent_names_state_cong) (rule agents_replace_execution)
  then show ?thesis
    by (simp add: update_tool_execution_def Let_def agent_names_emit upd)
qed

lemma apply_op_keeps_main:
  assumes "op \<noteq> Remove_sub_agent ''main''" and "''main'' \<in> set (agent_names m)"
  shows "''main'' \<in> set (agent_names (fst (apply_op clk op m)))"
proof (cases op)
  case (Set_callback cb)
  then show ?thesis using assms(2) by (simp add: set_callback_def agent_names_def)
next
  case (Update_phase ph msg p)
  then show ?thesis using assms(2) by (simp add: names_update_phase)
next
  case (Update_progress p msg)
  then show ?thesis using assms(2) by (simp add: names_update_progress)
next
  case (Add_planning_step s)
  then show ?thesis using assms(2) by (simp add: names_add_planning_step)
next
  case (Update_step_status sid st d e)
  then show ?thesis using assms(2) by (simp add: names_update_step_status)
next
  case (Update_agent_status n st t s msg)
  then show ?thesis using assms(2) names_update_agent_status by fastforce
next
  case (Add_sub_agent n p)
  then show ?thesis using assms(2) by (simp add: names_add_sub_agent)
next
  case (Remove_sub_agent n)
  then show ?thesis using assms by (simp add: names_remove_sub_agent)
next
  case (Add_tool_execution x)
  then show ?thesis using assms(2) by (simp add: names_add_tool_execution)
next
  case (Update_tool_execution x)
  then show ?thesis using assms(2) by (simp add: names_update_tool_execution)
qed

lemma run_ops_keeps_main:
  "Remove_sub_agent ''main'' \<notin> set ops \<Longrightarrow> ''main'' \<in> set (agent_names m) \<Longrightarrow>
   ''main'' \<in> set (agent_names (run_ops clk ops m))"
proof (induction ops arbitrary: m)
  case Nil
  then show ?case by simp
next
  case (Cons op ops)
  from Cons.prems have "op \<noteq> Remove_sub_agent ''main''" by auto
  with Cons.prems(2) have "''main'' \<in> set (agent_names (fst (apply_op clk op m)))"
    by (simp add: apply_op_keeps_main)
  moreover from Cons.prems(1) have "Remove_sub_agent ''main'' \<notin> set ops" by simp
  ultimately show ?case using Cons.IH by simp
qed
lemma init_has_main: "''main'' \<in> set (agent_names (init_manager clk rid))"
  by (simp add: agent_names_def init_manager_def Let_def new_AgentStatus_def)

text \<open>
  C1, as the claim states it, fails: \<^verbatim>\<open>remove_sub_agent\<close> filters the agents by name alone, so
  called with the name \<^verbatim>\<open>"main"\<close> on a freshly constructed manager it removes the main agent.
\<close>

theorem remove_sub_agent_removes_main:
  "get_main_agent (fst (remove_sub_agent epoch_clock ''main'' (init_manager epoch_clock ''r1''))) = None"
  by (simp add: remove_sub_agent_def get_main_agent_def state_emit_update init_manager_def Let_def
      new_AgentStatus_def)

text \<open>
  C1, amended: after construction an agent named \<^verbatim>\<open>"main"\<close> is present, and it is still present
  after every sequence of tracker operations that contains no call \<^verbatim>\<open>remove_sub_agent("main")\<close>;
  \<^verbatim>\<open>remove_sub_agent(name)\<close> leaves the main agent as it is for every other name, and removes
  it (every agent of that name) for the name \<^verbatim>\<open>"main"\<close>.
\<close>

theorem main_agent_kept_unless_removed_by_name:
  "get_main_agent (init_manager clk rid) \<noteq> None \<and>
   (Remove_sub_agent ''main'' \<notin> set ops \<longrightarrow>
      get_main_agent (run_ops clk ops (init_manager clk rid)) \<noteq> None) \<and>
   get_main_agent (fst (remove_sub_agent clk name m)) =
     (if name = ''main'' then None else get_main_agent m)"
proof (intro conjI impI)
  show "get_main_agent (init_manager clk rid) \<noteq> None"
    using init_has_main get_main_agent_iff by blast
  show "get_main_agent (run_ops clk ops (init_manager clk rid)) \<noteq> None"
    if "Remove_sub_agent ''main'' \<notin> set ops"
    using that run_ops_keeps_main init_has_main get_main_agent_iff by blast
  show "get_main_agent (fst (remove_sub_agent clk name m)) =
     (if name = ''main'' then None else get_main_agent m)"
  proof (cases "name = ''main''")
    case True
    then show ?thesis
      by (simp add: get_main_agent_def remove_sub_agent_def state_emit_update find_None_iff)
  next
    case False
    have "find (\<lambda>a. agent_name a = ''main'')
            (filter (\<lambda>a. agent_name a \<noteq> name) (active_agents (state m))) =
          find (\<lambda>a. agent_name a = ''main'') (active_agents (state m))"
      by (rule find_filter_implied) (use False in auto)
    with False show ?thesis
      by (simp add: get_main_agent_def remove_sub_agent_def state_emit_update)
  qed
qed

theorem main_agent_kept_witness:
  "Remove_sub_agent ''main'' \<notin>
     set [Add_sub_agent ''helper'' ''main'', Update_progress 150 None, Remove_sub_agent ''helper''] \<and>
   get_main_agent
     (run_ops epoch_clock
        [Add_sub_agent ''helper'' ''main'', Update_progress 150 None, Remove_sub_agent ''helper'']
        (init_manager epoch_clock ''r1'')) \<noteq> None"
  using main_agent_kept_unless_removed_by_name
          [of epoch_clock "''r1''"
              "[Add_sub_agent ''helper'' ''main'', Update_progress 150 None,
                Remove_sub_agent ''helper'']"
              "''main''" "init_manager epoch_clock ''r1''"]
  by simp

subsection \<open>Overall progress\<close>

text \<open>\<^verbatim>\<open>update_progress\<close> clamps what it stores to the range from 0 to 100.\<close>

lemma update_progress_clamps:
  "overall_progress (state (fst (update_progress clk p msg m))) = min 100 (max 0 p)"
  by (simp add: update_progress_def Let_def state_emit_update)

lemma update_phase_stores_progress:
  "overall_progress (state (fst (update_phase clk ph msg (Some p) m))) = p"
  by (simp add: update_phase_def Let_def state_emit_update update_main_agent_def)

text \<open>
  C2: the overall progress is claimed to stay within 0 and 100 under every tracker mutation,
  \<^verbatim>\<open>update_phase\<close> included, an input of 150 being stored as 100. \<^verbatim>\<open>update_progress\<close> clamps,
  \<^verbatim>\<open>update_phase\<close> stores its \<^verbatim>\<open>progress\<close> argument as it is: on a fresh manager
  \<^verbatim>\<open>update_phase("execution", "Executing research plan", 150)\<close> leaves 150.
\<close>

theorem update_phase_stores_progress_unclamped:
  "overall_progress (state (fst (update_phase epoch_clock ''execution'' ''Executing research plan''
      (Some 150) (init_manager epoch_clock ''r1'')))) = 150"
  by (simp add: update_phase_def Let_def state_emit_update update_main_agent_def)

text \<open>
  C10: when there are no planning steps, \<^verbatim>\<open>calculate_overall_progress\<close> returns the stored
  \<^verbatim>\<open>overall_progress\<close> field.
\<close>

theorem calculate_overall_progress_no_steps:
  "planning_steps (state m) = [] \<Longrightarrow> calculate_overall_progress m = overall_progress (state m)"
  by (simp add: calculate_overall_progress_def)

theorem calculate_overall_progress_no_steps_witness:
  "planning_steps (state (fst (update_progress epoch_clock 42 None (init_manager epoch_clock ''r1'')))) = [] \<and>
   calculate_overall_progress (fst (update_progress epoch_clock 42 None (init_manager epoch_clock ''r1''))) = 42"
  using calculate_overall_progress_no_steps
          [of "fst (update_progress epoch_clock 42 None (init_manager epoch_clock ''r1''))"]
  by (simp add: update_progress_def state_emit_update init_manager_def Let_def)

subsection \<open>Step status updates\<close>

text \<open>
  C9: \<^verbatim>\<open>update_step_status\<close> with an id that no planning step has returns at once: the manager
  is left as it was (state, \<^verbatim>\<open>updated_at\<close> and \<^verbatim>\<open>overall_progress\<close> included, start-time
  dictionaries and clock reads too), the callback is not called, and nothing is raised.
\<close>

theorem update_step_status_unknown_id_noop:
  "get_step m sid = None \<Longrightarrow> update_step_status clk sid status details error m = (m, None)"
  by (simp add: update_step_status_def)

theorem update_step_status_unknown_id_noop_witness:
  "get_step (init_manager epoch_clock ''r1'') ''7'' = None \<and>
   update_step_status epoch_clock ''7'' ''completed'' None None (init_manager epoch_clock ''r1'') =
     (init_manager epoch_clock ''r1'', None)"
  using update_step_status_unknown_id_noop
          [of "init_manager epoch_clock ''r1''" "''7''" epoch_clock "''completed''" None None]
  by (simp add: init_manager_def Let_def get_step_def)

subsection \<open>Callback failures\<close>

lemma emit_update_tracked:
  "same_tracked m m' \<Longrightarrow> same_tracked (fst (emit_update clk m)) (fst (emit_update clk m'))"
  by (simp add: same_tracked_def emit_update_def Let_def split: option.splits)

lemma emit_update_contained:
  assumes "callback m = Some cb" and "raises_only_Exception cb"
  shows "snd (emit_update clk m) = None"
  using assms by (auto simp: emit_update_def Let_def raises_only_Exception_def split: option.splits)

lemma update_main_agent_tracked:
  "same_tracked m m' \<Longrightarrow> same_tracked (update_main_agent f m) (update_main_agent f m')"
  by (simp add: same_tracked_def update_main_agent_def)

lemma step_timing_tracked:
  "same_tracked m m' \<Longrightarrow>
   fst (step_timing clk sid st m step) = fst (step_timing clk sid st m' step) \<and>
   same_tracked (snd (step_timing clk sid st m step)) (snd (step_timing clk sid st m' step))"
  by (simp add: same_tracked_def step_timing_def Let_def split: option.splits)

lemma tool_timing_tracked:
  "same_tracked m m' \<Longrightarrow>
   fst (tool_timing clk m x) = fst (tool_timing clk m' x) \<and>
   same_tracked (snd (tool_timing clk m x)) (snd (tool_timing clk m' x))"
  by (simp add: same_tracked_def tool_timing_def Let_def split: option.splits)

lemma replace_execution_tracked:
  assumes "same_tracked m m'"
  shows "same_tracked (replace_execution clk x m) (replace_execution clk x m')"
proof -
  have st: "state m = state m'" using assms by (simp add: same_tracked_def)
  show ?thesis
  proof (cases "find (same_execution x) (tool_executions (state m))")
    case None
    with st assms show ?thesis by (simp add: replace_execution_def)
  next
    case (Some e)
    obtain x1 m1 where t: "tool_timing clk m x = (x1, m1)"
      by (cases "tool_timing clk m x")
    obtain x1' m1' where t': "tool_timing clk m' x = (x1', m1')"
      by (cases "tool_timing clk m' x")
    from tool_timing_tracked[OF assms, of clk x] t t'
    have "x1' = x1" and "same_tracked m1 m1'" by simp_all
    with Some st t t' show ?thesis
      by (simp add: replace_execution_def same_tracked_def)
  qed
qed

lemma callback_update_main_agent: "callback (update_main_agent f m) = callback m"
  by (simp add: update_main_agent_def)

lemma callback_step_timing: "callback (snd (step_timing clk sid st m step)) = callback m"
  by (simp add: step_timing_def Let_def split: option.splits)

lemma callback_tool_timing: "callback (snd (tool_timing clk m x)) = callback m"
  by (simp add: tool_timing_def Let_def split: option.splits)

lemma callback_replace_execution: "callback (replace_execution clk x m) = callback m"
  using callback_tool_timing[of clk m x]
  by (auto simp: replace_execution_def split: option.splits prod.splits)

lemma update_phase_tracked:
  "same_tracked m m' \<Longrightarrow>
   same_tracked (fst (update_phase clk ph msg p m)) (fst (update_phase clk ph msg p m'))"
  unfolding update_phase_def Let_def
  by (intro emit_update_tracked update_main_agent_tracked)
     (simp add: same_tracked_def split: option.splits)

lemma update_progress_tracked:
  "same_tracked m m' \<Longrightarrow>
   same_tracked (fst (update_progress clk p msg m)) (fst (update_progress clk p msg m'))"
  unfolding update_progress_def Let_def
  by (intro emit_update_tracked) (simp add: same_tracked_def)

lemma add_planning_step_tracked:
  "same_tracked m m' \<Longrightarrow>
   same_tracked (fst (add_planning_step clk s m)) (fst (add_planning_step clk s m'))"
  unfolding add_planning_step_def
  by (intro emit_update_tracked) (simp add: same_tracked_def)

lemma update_step_status_tracked:
  assumes "same_tracked m m'"
  shows "same_tracked (fst (update_step_status clk sid st d e m))
           (fst (update_step_status clk sid st d e m'))"
proof -
  have g: "get_step m' sid = get_step m sid"
    using assms by (simp add: get_step_def same_tracked_def)
  show ?thesis
  proof (cases "get_step m sid")
    case None
    with g assms show ?thesis by (simp add: update_step_status_def)
  next
    case (Some step)
    obtain s2 m1 where t: "step_timing clk sid st m (set_step_status st step) = (s2, m1)"
      by (cases "step_timing clk sid st m (set_step_status st step)")
    obtain s2' m1' where t': "step_timing clk sid st m' (set_step_status st step) = (s2', m1')"
      by (cases "step_timing clk sid st m' (set_step_status st step)")
    from step_timing_tracked[OF assms, of clk sid st "set_step_status st step"] t t'
    have eq: "s2' = s2" and tr: "same_tracked m1 m1'" by simp_all
    from tr have "same_tracked
        (m1\<lparr>state := (state m1)\<lparr>planning_steps :=
              update_first (\<lambda>s. step_id s = sid) (\<lambda>s. set_details_error d e s2)
                (planning_steps (state m1))\<rparr>\<rparr>)
        (m1'\<lparr>state := (state m1')\<lparr>planning_steps :=
              update_first (\<lambda>s. step_id s = sid) (\<lambda>s. set_details_error d e s2)
                (planning_steps (state m1'))\<rparr>\<rparr>)"
      by (simp add: same_tracked_def)
    then show ?thesis
      using Some g t t' eq by (simp add: update_step_status_def emit_update_tracked)
  qed
qed

lemma update_agent_status_tracked:
  "same_tracked m m' \<Longrightarrow>
   same_tracked (fst (update_agent_status clk n st t s msg m))
     (fst (update_agent_status clk n st t s msg m'))"
  unfolding update_agent_status_def Let_def
  by (intro emit_update_tracked) (simp add: same_tracked_def split: option.splits)

lemma add_sub_agent_tracked:
  "same_tracked m m' \<Longrightarrow>
   same_tracked (fst (add_sub_agent clk n p m)) (fst (add_sub_agent clk n p m'))"
  unfolding add_sub_agent_def
  by (intro emit_update_tracked) (simp add: same_tracked_def)

lemma remove_sub_agent_tracked:
  "same_tracked m m' \<Longrightarrow>
   same_tracked (fst (remove_sub_agent clk n m)) (fst (remove_sub_agent clk n m'))"
  unfolding remove_sub_agent_def
  by (intro emit_update_tracked) (simp add: same_tracked_def)

lemma add_tool_execution_tracked:
  "same_tracked m m' \<Longrightarrow>
   same_tracked (fst (add_tool_execution clk x m)) (fst (add_tool_execution clk x m'))"
  unfolding add_tool_execution_def Let_def
  by (intro emit_update_tracked update_main_agent_tracked) (simp add: same_tracked_def)

lemma update_tool_execution_tracked:
  "same_tracked m m' \<Longrightarrow>
   same_tracked (fst (update_tool_execution clk x m)) (fst (update_tool_execution clk x m'))"
  unfolding update_tool_execution_def Let_def
  by (auto intro!: emit_update_tracked update_main_agent_tracked replace_execution_tracked)

lemma apply_op_tracked:
  assumes "same_tracked m m'"
  shows "same_tracked (fst (apply_op clk op m)) (fst (apply_op clk op m'))"
proof (cases op)
  case (Set_callback cb)
  then show ?thesis using assms by (simp add: set_callback_def same_tracked_def)
qed (simp_all add: assms update_phase_tracked update_progress_tracked add_planning_step_tracked
      update_step_status_tracked update_agent_status_tracked add_sub_agent_tracked
      remove_sub_agent_tracked add_tool_execution_tracked update_tool_execution_tracked)

lemma apply_op_contained:
  assumes "callback m = Some cb" and "raises_only_Exception cb"
  shows "snd (apply_op clk op m) = None"
proof (cases op)
  case (Set_callback cb')
  then show ?thesis by simp
next
  case (Update_phase ph msg p)
  then show ?thesis
    using assms by (simp add: update_phase_def Let_def)
       (rule emit_update_contained[where cb = cb], simp_all add: callback_update_main_agent split: option.splits)
next
  case (Update_progress p msg)
  then show ?thesis
    using assms by (auto simp: update_progress_def Let_def simp del: truthy.simps
          intro!: emit_update_contained[where cb = cb])
next
  case (Add_planning_step s)
  then show ?thesis
    using assms by (simp add: add_planning_step_def)
       (rule emit_update_contained[where cb = cb], simp_all)
next
  case (Update_step_status sid st d e)
  show ?thesis
  proof (cases "get_step m sid")
    case None
    then show ?thesis using Update_step_status by (simp add: update_step_status_def)
  next
    case (Some step)
    obtain s2 m1 where t: "step_timing clk sid st m (set_step_status st step) = (s2, m1)"
      by (cases "step_timing clk sid st m (set_step_status st step)")
    with callback_step_timing[of clk sid st m "set_step_status st step"]
    have "callback m1 = Some cb" using assms(1) by simp
    then show ?thesis
      using Update_step_status Some t assms(2)
      by (simp add: update_step_status_def) (rule emit_update_contained[where cb = cb], simp_all)
  qed
next
  case (Update_agent_status n st t s msg)
  then show ?thesis
    using assms by (simp add: update_agent_status_def Let_def)
       (rule emit_update_contained[where cb = cb], simp_all split: option.splits)
next
  case (Add_sub_agent n p)
  then show ?thesis
    using assms by (simp add: add_sub_agent_def)
       (rule emit_update_contained[where cb = cb], simp_all)
next
  case (Remove_sub_agent n)
  then show ?thesis
    using assms by (simp add: remove_sub_agent_def)
       (rule emit_update_contained[where cb = cb], simp_all)
next
  case (Add_tool_execution x)
  then show ?thesis
    using assms by (simp add: add_tool_execution_def Let_def)
       (rule emit_update_contained[where cb = cb], simp_all add: callback_update_main_agent)
next
  case (Update_tool_execution x)
  then show ?thesis
    using assms by (simp add: update_tool_execution_def Let_def)
       (auto intro!: emit_update_contained[where cb = cb]
             simp: callback_update_main_agent callback_replace_execution)
qed

text \<open>
  C5: for every mutating call on a manager with a registered callback, whatever instance of
  \<^verbatim>\<open>Exception\<close> the callback raises (in any state it is shown), no exception leaves the call,
  and the call leaves the progress state (\<^verbatim>\<open>updated_at\<close> included), the start-time dictionaries
  and the clock reads exactly as the same call does on a manager with no callback.
\<close>

theorem callback_exception_contained:
  assumes "callback m = Some cb" and "raises_only_Exception cb"
  shows "snd (apply_op clk op m) = None \<and>
         same_tracked (fst (apply_op clk op m)) (fst (apply_op clk op (m\<lparr>callback := None\<rparr>)))"
proof
  show "snd (apply_op clk op m) = None"
    using assms by (rule apply_op_contained)
  have "same_tracked m (m\<lparr>callback := None\<rparr>)"
    by (simp add: same_tracked_def)
  then show "same_tracked (fst (apply_op clk op m)) (fst (apply_op clk op (m\<lparr>callback := None\<rparr>)))"
    by (rule apply_op_tracked)
qed

theorem callback_exception_contained_witness:
  "callback (set_callback (\<lambda>s. Some (Exception ''observer failed'')) (init_manager epoch_clock ''r1''))
     = Some (\<lambda>s. Some (Exception ''observer failed'')) \<and>
   raises_only_Exception (\<lambda>s. Some (Exception ''observer failed'')) \<and>
   snd (apply_op epoch_clock (Update_progress 150 None)
     (set_callback (\<lambda>s. Some (Exception ''observer failed'')) (init_manager epoch_clock ''r1''))) = None \<and>
   same_tracked
     (fst (apply_op epoch_clock (Update_progress 150 None)
        (set_callback (\<lambda>s. Some (Exception ''observer failed'')) (init_manager epoch_clock ''r1''))))
     (fst (apply_op epoch_clock (Update_progress 150 None)
        ((set_callback (\<lambda>s. Some (Exception ''observer failed'')) (init_manager epoch_clock ''r1''))
           \<lparr>callback := None\<rparr>)))"
  using callback_exception_contained
      [of "set_callback (\<lambda>s. Some (Exception ''observer failed'')) (init_manager epoch_clock ''r1'')"
          "\<lambda>s. Some (Exception ''observer failed'')" epoch_clock "Update_progress 150 None"]
  by (simp add: set_callback_def raises_only_Exception_def)

subsection \<open>Step timing\<close>

lemmas run_eval = run_ops.simps apply_op.simps add_planning_step_def update_step_status_def
  step_timing_def set_step_status_def set_details_error_def emit_update_def init_manager_def
  get_step_def new_PlanningStep_def new_AgentStatus_def StepStatus_of_def Let_def epoch_clock_def

lemma pow2_pos: "0 < pow2 e"
  by (simp add: pow2_def)

lemma round_half_even_nonneg: "0 \<le> x \<Longrightarrow> 0 \<le> round_half_even x"
  by (simp add: round_half_even_def Let_def)

lemma round_double_nonneg: "0 \<le> x \<Longrightarrow> 0 \<le> round_double x"
proof (cases "x = 0")
  case True
  then show ?thesis by (simp add: round_double_def)
next
  case False
  assume "0 \<le> x"
  with False have pos: "0 < x" by simp
  have "0 \<le> \<bar>x\<bar> / pow2 (binary_exponent \<bar>x\<bar> - 52)"
    using pow2_pos[of "binary_exponent \<bar>x\<bar> - 52"] by simp
  then have "0 \<le> round_half_even (\<bar>x\<bar> / pow2 (binary_exponent \<bar>x\<bar> - 52))"
    by (rule round_half_even_nonneg)
  then show ?thesis
    using pos pow2_pos[of "binary_exponent \<bar>x\<bar> - 52"]
    by (simp add: round_double_def Let_def)
qed

lemma py_int_nonneg: "0 \<le> x \<Longrightarrow> 0 \<le> py_int x"
  by (simp add: py_int_def)

lemma elapsed_ms_nonneg:
  "t0 \<le> t1 \<Longrightarrow> 0 \<le> py_int (float_mul (float_sub t1 t0) (float_of_int 1000))"
proof -
  assume "t0 \<le> t1"
  then have "0 \<le> float_sub t1 t0"
    by (simp add: float_sub_def round_double_nonneg)
  moreover have "0 \<le> float_of_int 1000"
    by (simp add: float_of_int_def round_double_nonneg)
  ultimately show ?thesis
    by (simp add: float_mul_def round_double_nonneg py_int_nonneg)
qed

lemma find_update_first_same:
  "find P xs = Some x \<Longrightarrow> P y \<Longrightarrow> find P (update_first P (\<lambda>_. y) xs) = Some y"
  by (induction xs) (auto split: if_splits)

lemma set_update_first_const: "set (update_first P (\<lambda>_. y) xs) \<subseteq> insert y (set xs)"
  by (induction xs) auto

lemma find_Some_holds: "find P xs = Some x \<Longrightarrow> P x \<and> x \<in> set xs"
  by (induction xs) (auto split: if_splits)

lemma get_step_Some:
  "get_step m sid = Some step \<Longrightarrow> step_id step = sid \<and> step \<in> set (planning_steps (state m))"
  using find_Some_holds[of "\<lambda>s. step_id s = sid" "planning_steps (state m)" step]
  by (simp add: get_step_def)

lemma state_step_timing: "state (snd (step_timing clk sid st m step)) = state m"
  by (simp add: step_timing_def Let_def split: option.splits)

lemma step_id_set_step_status: "step_id (set_step_status st step) = step_id step"
  by (simp add: set_step_status_def)

lemma step_id_step_timing: "step_id (fst (step_timing clk sid st m step)) = step_id step"
  by (simp add: step_timing_def Let_def split: option.splits)

lemma step_id_set_details_error: "step_id (set_details_error d e step) = step_id step"
  by (simp add: set_details_error_def Let_def)

lemma step_id_updated_step: "step_id (updated_step clk sid st d e m step) = step_id step"
  by (simp add: updated_step_def step_id_set_details_error step_id_step_timing
      step_id_set_step_status)

lemma planning_steps_update_step_status:
  assumes "get_step m sid = Some step"
  shows "planning_steps (state (fst (update_step_status clk sid st d e m))) =
           update_first (\<lambda>s. step_id s = sid) (\<lambda>_. updated_step clk sid st d e m step)
             (planning_steps (state m))"
proof -
  obtain s2 m1 where t: "step_timing clk sid st m (set_step_status st step) = (s2, m1)"
    by (cases "step_timing clk sid st m (set_step_status st step)")
  with state_step_timing[of clk sid st m "set_step_status st step"]
  have "state m1 = state m" by simp
  with assms t show ?thesis
    by (simp add: update_step_status_def state_emit_update updated_step_def)
qed

lemma get_step_update_step_status:
  assumes "get_step m sid = Some step"
  shows "get_step (fst (update_step_status clk sid st d e m)) sid =
           Some (updated_step clk sid st d e m step)"
proof -
  from assms have "step_id step = sid"
    by (simp add: get_step_Some)
  then have "step_id (updated_step clk sid st d e m step) = sid"
    by (simp add: step_id_updated_step)
  with assms show ?thesis
    by (simp add: get_step_def planning_steps_update_step_status[OF assms] find_update_first_same)
qed

lemma started_at_updated_step:
  "step_started_at (updated_step clk sid ''in_progress'' d e m step) =
     Some (datetime_now clk (now_calls m))"
  by (simp add: updated_step_def set_details_error_def step_timing_def Let_def)

lemma duration_updated_step_timed:
  assumes "is_terminal st" and "step_start_times m sid = Some t0"
  shows "step_duration_ms (updated_step clk sid st d e m step) =
           Some (py_int (float_mul (float_sub (time_time clk (time_calls m)) t0) (float_of_int 1000)))"
  using assms
  by (auto simp: updated_step_def set_details_error_def step_timing_def Let_def is_terminal_def)

lemma duration_updated_step_untimed:
  assumes "\<not> is_terminal st \<or> step_start_times m sid = None"
  shows "step_duration_ms (updated_step clk sid st d e m step) = step_duration_ms step"
  using assms
  by (auto simp: updated_step_def set_details_error_def step_timing_def Let_def is_terminal_def
      set_step_status_def split: option.splits)

lemma steps_emit: "planning_steps (state (fst (emit_update clk m))) = planning_steps (state m)"
  by (simp add: state_emit_update)

lemma steps_update_main_agent:
  "planning_steps (state (update_main_agent f m)) = planning_steps (state m)"
  by (simp add: update_main_agent_def)

lemma steps_replace_execution:
  "planning_steps (state (replace_execution clk x m)) = planning_steps (state m)"
proof (cases "find (same_execution x) (tool_executions (state m))")
  case None
  then show ?thesis by (simp add: replace_execution_def)
next
  case (Some e)
  obtain x1 m' where t: "tool_timing clk m x = (x1, m')"
    by (cases "tool_timing clk m x")
  have "state (snd (tool_timing clk m x)) = state m"
    by (simp add: tool_timing_def Let_def split: option.splits)
  with t Some show ?thesis
    by (simp add: replace_execution_def)
qed

lemma durations_null_cong:
  "planning_steps (state m') = planning_steps (state m) \<Longrightarrow>
   durations_null sid m' = durations_null sid m"
  by (simp add: durations_null_def)

lemma apply_op_durations_null:
  assumes "adds_blank_duration op" and "\<not> terminal_update_of sid op"
    and "durations_null sid m"
  shows "durations_null sid (fst (apply_op clk op m))"
proof (cases op)
  case (Set_callback cb)
  then show ?thesis using assms(3) by (simp add: set_callback_def durations_null_def)
next
  case (Update_phase ph msg p)
  have "planning_steps (state (fst (update_phase clk ph msg p m))) = planning_steps (state m)"
    by (simp add: update_phase_def Let_def steps_emit steps_update_main_agent split: option.splits)
  with Update_phase assms(3) show ?thesis by (simp add: durations_null_def)
next
  case (Update_progress p msg)
  have "planning_steps (state (fst (update_progress clk p msg m))) = planning_steps (state m)"
    by (simp add: update_progress_def Let_def steps_emit del: truthy.simps)
  with Update_progress assms(3) show ?thesis by (simp add: durations_null_def)
next
  case (Add_planning_step s)
  with assms(1) have "step_duration_ms s = None" by simp
  with Add_planning_step assms(3) show ?thesis
    by (auto simp: add_planning_step_def steps_emit durations_null_def)
next
  case (Update_step_status sid' st d e)
  show ?thesis
  proof (cases "get_step m sid'")
    case None
    with Update_step_status assms(3) show ?thesis by (simp add: update_step_status_def)
  next
    case (Some step)
    from Some have mem: "step_id step = sid' \<and> step \<in> set (planning_steps (state m))"
      by (rule get_step_Some)
    have new: "step_id (updated_step clk sid' st d e m step) = sid \<longrightarrow>
               step_duration_ms (updated_step clk sid' st d e m step) = None"
    proof
      assume "step_id (updated_step clk sid' st d e m step) = sid"
      with mem have eq: "sid' = sid" by (simp add: step_id_updated_step)
      with assms(2) Update_step_status have "\<not> is_terminal st" by simp
      then have "step_duration_ms (updated_step clk sid' st d e m step) = step_duration_ms step"
        by (simp add: duration_updated_step_untimed)
      also from mem eq assms(3) have "\<dots> = None" by (simp add: durations_null_def)
      finally show "step_duration_ms (updated_step clk sid' st d e m step) = None" .
    qed
    show ?thesis
      unfolding durations_null_def
    proof (intro ballI impI)
      fix s
      assume "s \<in> set (planning_steps (state (fst (apply_op clk op m))))" and sid: "step_id s = sid"
      then have "s \<in> insert (updated_step clk sid' st d e m step) (set (planning_steps (state m)))"
        using Update_step_status planning_steps_update_step_status[OF Some, of clk st d e]
          set_update_first_const[of "\<lambda>s. step_id s = sid'" "updated_step clk sid' st d e m step"
            "planning_steps (state m)"]
        by auto
      with new sid assms(3) show "step_duration_ms s = None"
        by (auto simp: durations_null_def)
    qed
  qed
next
  case (Update_agent_status n st t s msg)
  have "planning_steps (state (fst (update_agent_status clk n st t s msg m))) = planning_steps (state m)"
    by (simp add: update_agent_status_def Let_def steps_emit split: option.splits)
  with Update_agent_status assms(3) show ?thesis by (simp add: durations_null_def)
next
  case (Add_sub_agent n p)
  with assms(3) show ?thesis by (simp add: add_sub_agent_def steps_emit durations_null_def)
next
  case (Remove_sub_agent n)
  with assms(3) show ?thesis by (simp add: remove_sub_agent_def steps_emit durations_null_def)
next
  case (Add_tool_execution x)
  with assms(3) show ?thesis
    by (simp add: add_tool_execution_def Let_def steps_emit steps_update_main_agent durations_null_def)
next
  case (Update_tool_execution x)
  have "planning_steps (state (fst (update_tool_execution clk x m))) = planning_steps (state m)"
    by (simp add: update_tool_execution_def Let_def steps_emit steps_update_main_agent
        steps_replace_execution)
  with Update_tool_execution assms(3) show ?thesis by (simp add: durations_null_def)
qed

lemma run_ops_durations_null:
  "\<forall>op \<in> set ops. adds_blank_duration op \<and> \<not> terminal_update_of sid op \<Longrightarrow>
   durations_null sid m \<Longrightarrow> durations_null sid (run_ops clk ops m)"
proof (induction ops arbitrary: m)
  case Nil
  then show ?case by simp
next
  case (Cons op ops)
  from Cons.prems have "durations_null sid (fst (apply_op clk op m))"
    by (simp add: apply_op_durations_null)
  with Cons.prems(1) Cons.IH show ?case by simp
qed

lemma init_durations_null: "durations_null sid (init_manager clk rid)"
  by (simp add: durations_null_def init_manager_def Let_def)

text \<open>
  C7, as the claim states it, fails. A step that is set to \<^verbatim>\<open>completed\<close> without having been
  set to \<^verbatim>\<open>in_progress\<close> has no recorded start time, and its \<^verbatim>\<open>duration_ms\<close> is still null
  after the update. A step that was set to \<^verbatim>\<open>in_progress\<close> and then to \<^verbatim>\<open>completed\<close> has a
  duration that is not null, so it is not null before a further update to \<^verbatim>\<open>failed\<close>.
\<close>

theorem completed_without_start_has_no_duration:
  "map (\<lambda>s. (step_id s, step_duration_ms s))
     (planning_steps (state (run_ops epoch_clock
        [Add_planning_step (new_PlanningStep ''1'' ''Build PICO query'' ''pico_query''),
         Update_step_status ''1'' ''completed'' None None]
        (init_manager epoch_clock ''r1'')))) = [(''1'', None)] \<and>
   map (\<lambda>s. (step_id s, step_duration_ms s \<noteq> None))
     (planning_steps (state (run_ops epoch_clock
        [Add_planning_step (new_PlanningStep ''1'' ''Build PICO query'' ''pico_query''),
         Update_step_status ''1'' ''in_progress'' None None,
         Update_step_status ''1'' ''completed'' None None]
        (init_manager epoch_clock ''r1'')))) = [(''1'', True)]"
  by (simp add: run_eval)

text \<open>
  C7, amended. Let the manager be reached from a fresh one by tracker calls that add steps
  with a null duration and that have not yet set the step \<open>sid\<close> to \<^verbatim>\<open>completed\<close> or
  \<^verbatim>\<open>failed\<close>, and let \<open>sid\<close> be the id of a planning step. Then an update of \<open>sid\<close> to
  \<^verbatim>\<open>in_progress\<close> sets the step's \<^verbatim>\<open>started_at\<close> (to the clock reading). For an update to
  \<^verbatim>\<open>completed\<close> or \<^verbatim>\<open>failed\<close>, \<^verbatim>\<open>duration_ms\<close> is null before it; after it, it is a
  non-negative integer when the id has a recorded start time (the step was set to
  \<^verbatim>\<open>in_progress\<close> before) that is not later than the present reading of \<^verbatim>\<open>time.time()\<close>, and
  it is still null when the id has no recorded start time.
\<close>

theorem step_status_update_timing:
  assumes run: "m = run_ops clk ops (init_manager clk rid)"
    and ops: "\<forall>op \<in> set ops. adds_blank_duration op \<and> \<not> terminal_update_of sid op"
    and present: "get_step m sid = Some step"
  shows "(\<exists>step'. get_step (fst (update_step_status clk sid ''in_progress'' d e m)) sid = Some step' \<and>
             step_started_at step' = Some (datetime_now clk (now_calls m))) \<and>
         (is_terminal st \<longrightarrow>
            step_duration_ms step = None \<and>
            (\<exists>step'. get_step (fst (update_step_status clk sid st d e m)) sid = Some step' \<and>
               (case step_start_times m sid of
                  None \<Rightarrow> step_duration_ms step' = None
                | Some t0 \<Rightarrow>
                    t0 \<le> time_time clk (time_calls m) \<longrightarrow>
                    (\<exists>ms. step_duration_ms step' = Some ms \<and> 0 \<le> ms))))"
proof (intro conjI impI)
  show "\<exists>step'. get_step (fst (update_step_status clk sid ''in_progress'' d e m)) sid = Some step' \<and>
             step_started_at step' = Some (datetime_now clk (now_calls m))"
    using get_step_update_step_status[OF present] started_at_updated_step by blast
next
  assume terminal: "is_terminal st"
  have "durations_null sid m"
    unfolding run using ops init_durations_null by (rule run_ops_durations_null)
  moreover from present have "step_id step = sid \<and> step \<in> set (planning_steps (state m))"
    by (rule get_step_Some)
  ultimately show null: "step_duration_ms step = None"
    by (simp add: durations_null_def)
  let ?step' = "updated_step clk sid st d e m step"
  have "case step_start_times m sid of
          None \<Rightarrow> step_duration_ms ?step' = None
        | Some t0 \<Rightarrow> t0 \<le> time_time clk (time_calls m) \<longrightarrow>
            (\<exists>ms. step_duration_ms ?step' = Some ms \<and> 0 \<le> ms)"
  proof (cases "step_start_times m sid")
    case None
    then show ?thesis using null by (simp add: duration_updated_step_untimed)
  next
    case (Some t0)
    then show ?thesis
      using terminal by (simp add: duration_updated_step_timed elapsed_ms_nonneg)
  qed
  then show "\<exists>step'. get_step (fst (update_step_status clk sid st d e m)) sid = Some step' \<and>
               (case step_start_times m sid of
                  None \<Rightarrow> step_duration_ms step' = None
                | Some t0 \<Rightarrow>
                    t0 \<le> time_time clk (time_calls m) \<longrightarrow>
                    (\<exists>ms. step_duration_ms step' = Some ms \<and> 0 \<le> ms))"
    using get_step_update_step_status[OF present] by blast
qed

theorem step_status_update_timing_witness:
  "\<exists>step'. get_step (fst (update_step_status epoch_clock ''1'' ''completed'' None None
       (run_ops epoch_clock
          [Add_planning_step (new_PlanningStep ''1'' ''Build PICO query'' ''pico_query''),
           Update_step_status ''1'' ''in_progress'' None None]
          (init_manager epoch_clock ''r1'')))) ''1'' = Some step' \<and>
      (\<exists>ms. step_duration_ms step' = Some ms \<and> 0 \<le> ms)"
proof -
  let ?ops = "[Add_planning_step (new_PlanningStep ''1'' ''Build PICO query'' ''pico_query''),
           Update_step_status ''1'' ''in_progress'' None None]"
  let ?m = "run_ops epoch_clock ?ops (init_manager epoch_clock ''r1'')"
  have ops: "\<forall>op \<in> set ?ops. adds_blank_duration op \<and> \<not> terminal_update_of ''1'' op"
    by (simp add: new_PlanningStep_def is_terminal_def)
  have present: "get_step ?m ''1'' = Some (the (get_step ?m ''1''))"
    by (simp add: run_eval)
  have t0: "step_start_times ?m ''1'' = Some 0" and now: "time_time epoch_clock (time_calls ?m) = 1"
    by (simp_all add: run_eval)
  show ?thesis
    using step_status_update_timing[OF refl ops present, of None None "''completed''"] t0 now
    by (simp add: is_terminal_def)
qed

subsection \<open>Derived progress in floating point\<close>

lemma progress_one_done_one_running_of_three: "progress_from_counts 3 1 1 = 49"
  by code_simp

lemma three_step_run_statuses:
  "map step_status
     (planning_steps (state (run_ops epoch_clock
        [Add_planning_step (new_PlanningStep ''1'' ''Build PICO query'' ''pico_query''),
         Add_planning_step (new_PlanningStep ''2'' ''Search PubMed'' ''pubmed_search''),
         Add_planning_step (new_PlanningStep ''3'' ''Synthesize findings'' ''synthesis''),
         Update_step_status ''1'' ''in_progress'' None None,
         Update_step_status ''1'' ''completed'' None None,
         Update_step_status ''2'' ''in_progress'' None None]
        (init_manager epoch_clock ''r1'')))) =
   [Member StepStatus.COMPLETED, Member StepStatus.IN_PROGRESS, Member StepStatus.PENDING]"
  by (simp add: run_eval)

lemma calculate_overall_progress_by_statuses:
  assumes "map step_status (planning_steps (state m)) = sts" and "sts \<noteq> []"
  shows "calculate_overall_progress m =
           progress_from_counts (int (length sts))
             (int (length (filter (\<lambda>f. step_status_str f \<in> {''completed'', ''skipped''}) sts)))
             (int (length (filter (\<lambda>f. step_status_str f = ''in_progress'') sts)))"
proof -
  have len: "length (filter (\<lambda>s. P (step_status s)) xs) = length (filter P (map step_status xs))"
    for P and xs :: "PlanningStep list"
    by (induction xs) auto
  from assms have ne: "planning_steps (state m) \<noteq> []" by auto
  have cnt: "count_status ms (planning_steps (state m)) =
      length (filter (\<lambda>f. step_status_str f \<in> set (map StepStatus_value ms)) sts)" for ms
    unfolding count_status_def assms(1)[symmetric] by (rule len)
  have "length (planning_steps (state m)) = length sts"
    using assms(1) by (metis length_map)
  with ne show ?thesis
    unfolding calculate_overall_progress_def by (simp add: cnt)
qed

text \<open>
  C6: with \<open>t\<close> steps of which \<open>c\<close> are completed or skipped and \<open>p\<close> in progress, the result is
  claimed to be the floor of \<open>(c + 0.5 * p) / t * 100\<close>. The code adds two separately rounded
  floats. For three steps, one completed and one in progress, \<open>(1 / 3) * 100\<close> and
  \<open>(0.5 / 3) * 100\<close> round to 33.33333333333333 and 16.666666666666664, their sum to
  49.99999999999999, and the result is 49, where the claimed value is 50.
\<close>

theorem calculate_overall_progress_float_rounding:
  "calculate_overall_progress
     (run_ops epoch_clock
        [Add_planning_step (new_PlanningStep ''1'' ''Build PICO query'' ''pico_query''),
         Add_planning_step (new_PlanningStep ''2'' ''Search PubMed'' ''pubmed_search''),
         Add_planning_step (new_PlanningStep ''3'' ''Synthesize findings'' ''synthesis''),
         Update_step_status ''1'' ''in_progress'' None None,
         Update_step_status ''1'' ''completed'' None None,
         Update_step_status ''2'' ''in_progress'' None None]
        (init_manager epoch_clock ''r1'')) = 49 \<and>
   \<lfloor>((1 :: rat) + 1 / 2 * 1) / 3 * 100\<rfloor> = 50"
  using calculate_overall_progress_by_statuses [OF three_step_run_statuses]
  by (simp add: progress_one_done_one_running_of_three)

section \<open>Properties of the plan parser\<close>

lemmas str_eval = strip_def is_space_def startswith_def split_once_def lower_def lower_char_def
  str_nat.simps

lemma parse_lines_no_STEP:
  "\<not> list_ex (\<lambda>line. startswith ''STEP'' (strip line)) lines \<Longrightarrow>
   parse_lines lines [] None n = ([], None)"
  by (induction lines arbitrary: n) (simp_all add: Let_def)

text \<open>
  C4, as the claim states it, fails: for the plan text \<^verbatim>\<open>Find evidence\<close>, which is not empty and
  has no line beginning with \<^verbatim>\<open>STEP\<close>, the one step returned has the action \<^verbatim>\<open>pubmed_search\<close>,
  not \<^verbatim>\<open>search\<close>. And the parser strips each line before it looks for \<^verbatim>\<open>STEP\<close>: the two-line
  text \<^verbatim>\<open>Plan\<close>, \<^verbatim>\<open> STEP one\<close> has no line beginning with \<^verbatim>\<open>STEP\<close> either, and yields a parsed
  step with the action \<^verbatim>\<open>unknown\<close>.
\<close>

theorem fallback_action_is_pubmed_search:
  "''Find evidence'' \<noteq> [] \<and>
   \<not> list_ex (startswith ''STEP'') (split_char (CHR 0x0A) ''Find evidence'') \<and>
   map step_action (parse_plan ''Find evidence'') = [''pubmed_search''] \<and>
   \<not> list_ex (startswith ''STEP'') (split_char (CHR 0x0A) (''Plan'' @ [CHR 0x0A] @ '' STEP one'')) \<and>
   map step_action (parse_plan (''Plan'' @ [CHR 0x0A] @ '' STEP one'')) = [''unknown'']"
  by (simp add: parse_plan_def str_eval new_PlanningStep_def Let_def)

text \<open>
  C4, amended: for every plan text (empty or not) in which no line of the stripped text begins,
  once the line is stripped of surrounding whitespace, with \<^verbatim>\<open>STEP\<close>, the parser returns exactly
  one step, the fallback step with id \<^verbatim>\<open>1\<close>, name \<^verbatim>\<open>Analyze query\<close> and action \<^verbatim>\<open>pubmed_search\<close>.
\<close>

theorem parse_plan_fallback:
  assumes "\<not> list_ex (\<lambda>line. startswith ''STEP'' (strip line))
               (split_char (CHR 0x0A) (strip plan_text))"
  shows "parse_plan plan_text = [new_PlanningStep ''1'' ''Analyze query'' ''pubmed_search'']"
  using parse_lines_no_STEP[OF assms, of 0] by (simp add: parse_plan_def)

theorem parse_plan_fallback_witness:
  "\<not> list_ex (\<lambda>line. startswith ''STEP'' (strip line))
       (split_char (CHR 0x0A) (strip (''Find evidence on statins'' @ [CHR 0x0A] @ ''ACTION: search''))) \<and>
   parse_plan (''Find evidence on statins'' @ [CHR 0x0A] @ ''ACTION: search'') =
     [new_PlanningStep ''1'' ''Analyze query'' ''pubmed_search'']"
  using parse_plan_fallback[of "''Find evidence on statins'' @ [CHR 0x0A] @ ''ACTION: search''"]
  by (simp add: str_eval)

section \<open>Properties of the result formatter\<close>

lemma collect_sources_concat:
  "collect_sources fs acc = acc @ concat (map (\<lambda>f. get_or (f_sources f) []) fs)"
  by (induction fs arbitrary: acc) auto

lemma format_findings_closed:
  assumes "\<forall>f \<in> set fs. rendered f \<longrightarrow> f_step_name f \<noteq> None"
  shows "format_findings fs out =
     Inr (out @ concat (map (\<lambda>f. finding_section (the (f_step_name f)) (the (f_content f)))
                         (filter rendered fs)))"
  using assms by (induction fs arbitrary: out) (auto simp: rendered_def)

lemma format_sources_closed:
  "format_sources i srcs out =
     out @ concat (map (\<lambda>k. source_line (i + k) (srcs ! k)) [0..<length srcs])"
proof (induction srcs arbitrary: i out)
  case Nil
  then show ?case by simp
next
  case (Cons s srcs)
  have "map (\<lambda>k. source_line (i + k) ((s # srcs) ! k)) [0..<length (s # srcs)] =
        source_line i s # map (\<lambda>k. source_line (Suc i + k) (srcs ! k)) [0..<length srcs]"
    by (simp add: upt_conv_Cons map_Suc_upt[symmetric] del: upt_Suc)
  with Cons.IH[of "Suc i"] show ?case by simp
qed

text \<open>
  The report in closed form, for findings that have a step name where one is read: the header,
  the sections of the findings that have content and no true \<^verbatim>\<open>error\<close> value, in order, and,
  when there are sources, the sources heading and one numbered line for each of the first
  twenty accumulated sources.
\<close>

lemma format_results_closed_form:
  assumes "\<forall>f \<in> set fs. rendered f \<longrightarrow> f_step_name f \<noteq> None"
  shows "\<exists>rep. format_results links query fs synthesis = Inr rep \<and>
     formatted_findings rep =
       report_header query synthesis @
       concat (map (\<lambda>f. finding_section (the (f_step_name f)) (the (f_content f)))
                 (filter rendered fs)) @
       (let all_sources = concat (map (\<lambda>f. get_or (f_sources f) []) fs)
        in if all_sources = [] then []
           else [CHR 0x0A] @ ''## Sources'' @ [CHR 0x0A] @
                concat (map (\<lambda>k. source_line (Suc k) (all_sources ! k))
                          [0..<min 20 (length all_sources)]))"
proof -
  have nth: "map (\<lambda>k. source_line (Suc k) (take 20 xs ! k)) [0..<min 20 (length xs)] =
             map (\<lambda>k. source_line (Suc k) (xs ! k)) [0..<min 20 (length xs)]" for xs :: "source list"
    by (rule map_cong) auto
  show ?thesis
    using format_findings_closed[OF assms, of "report_header query synthesis"]
    by (simp add: format_results_def Let_def collect_sources_concat format_sources_closed nth
        min.commute del: concat_eq_Nil_conv)
qed

lemma format_results_more_than_20_sources:
  assumes "\<forall>f \<in> set fs. rendered f \<longrightarrow> f_step_name f \<noteq> None"
    and "20 < length (concat (map (\<lambda>f. get_or (f_sources f) []) fs))"
  shows "\<exists>rep. format_results links query fs synthesis = Inr rep \<and>
     formatted_findings rep =
       report_header query synthesis @
       concat (map (\<lambda>f. finding_section (the (f_step_name f)) (the (f_content f)))
                 (filter rendered fs)) @
       [CHR 0x0A] @ ''## Sources'' @ [CHR 0x0A] @
       concat (map (\<lambda>k. source_line (Suc k) (concat (map (\<lambda>f. get_or (f_sources f) []) fs) ! k))
                 [0..<20])"
proof -
  let ?all = "concat (map (\<lambda>f. get_or (f_sources f) []) fs)"
  from assms(2) have "length ?all \<noteq> 0" by linarith
  then have "?all \<noteq> []" by (simp only: length_0_conv not_False_eq_True)
  moreover from assms(2) have "min 20 (length ?all) = 20" by linarith
  ultimately have "?all \<noteq> []" and "min 20 (length ?all) = 20" .
  with format_results_closed_form[OF assms(1), of links query synthesis] show ?thesis
    by (simp add: Let_def del: concat_eq_Nil_conv)
qed

text \<open>
  C8: the report is claimed to omit the content section of every finding flagged with an
  error. The formatter tests the truth of the \<^verbatim>\<open>error\<close> value, and an empty string is false: the
  finding that \<^verbatim>\<open>_execute_research_plan\<close> records for a step whose handler raised an exception
  with an empty message (\<^verbatim>\<open>str(e) == ""\<close>) carries \<^verbatim>\<open>"error": ""\<close> and the content
  \<^verbatim>\<open>"Error: "\<close>, and its section is written into the report.
\<close>

theorem error_finding_with_empty_message_is_rendered:
  "f_error (error_finding (new_PlanningStep ''4'' ''Synthesize findings'' ''synthesis'') (Exception []))
     = Some [] \<and>
   map_sum id formatted_findings
     (format_results [] ''statins''
        [error_finding (new_PlanningStep ''4'' ''Synthesize findings'' ''synthesis'') (Exception [])]
        ''Summary'') =
   Inr (report_header ''statins'' ''Summary'' @ finding_section ''Synthesize findings'' ''Error: '')"
  by (simp add: format_results_def error_finding_def new_PlanningStep_def get_or_def Let_def)

end
